theory Spec2Isabelle
  imports Main
begin

section \<open>Strings as the TypeScript sources use them\<close>

text \<open>
  A source string is modelled as a \<^typ>\<open>string\<close> holding the bytes of its UTF-8
  encoding: a character below U+0080 is one \<^typ>\<open>char\<close>, any other character two to four.
  \<open>trim\<close> models \<^verbatim>\<open>String.prototype.trim\<close>, which strips from both ends every white
  space and line terminator of ECMAScript:
  \<^item> one byte: tab, line feed, vertical tab, form feed, carriage return, space;
  \<^item> two bytes: U+00A0 (\<open>C2 A0\<close>);
  \<^item> three bytes: U+1680 (\<open>E1 9A 80\<close>), U+2000 to U+200A (\<open>E2 80 80\<close> to
    \<open>E2 80 8A\<close>), U+2028 and U+2029 (\<open>E2 80 A8\<close>, \<open>E2 80 A9\<close>), U+202F
    (\<open>E2 80 AF\<close>), U+205F (\<open>E2 81 9F\<close>), U+3000 (\<open>E3 80 80\<close>) and U+FEFF
    (\<open>EF BB BF\<close>).
  \<open>trimStart\<close> strips them from the front; \<open>trimEnd_rev\<close> strips them from the end
  of a string given back to front.  \<open>join\<close> models \<^verbatim>\<open>Array.prototype.join\<close>.
\<close>

definition is_space :: "char \<Rightarrow> bool" where
  "is_space c = (c = CHR 0x09 \<or> c = CHR 0x0A \<or> c = CHR 0x0B \<or> c = CHR 0x0C
     \<or> c = CHR 0x0D \<or> c = CHR '' '')"

definition is_space2 :: "char \<Rightarrow> char \<Rightarrow> bool" where
  "is_space2 a b = (a = CHR 0xC2 \<and> b = CHR 0xA0)"

definition is_space3 :: "char \<Rightarrow> char \<Rightarrow> char \<Rightarrow> bool" where
  "is_space3 a b c =
     ((a = CHR 0xE1 \<and> b = CHR 0x9A \<and> c = CHR 0x80)
    \<or> (a = CHR 0xE2 \<and> b = CHR 0x80 \<and>
        (c = CHR 0x80 \<or> c = CHR 0x81 \<or> c = CHR 0x82 \<or> c = CHR 0x83 \<or> c = CHR 0x84
         \<or> c = CHR 0x85 \<or> c = CHR 0x86 \<or> c = CHR 0x87 \<or> c = CHR 0x88 \<or> c = CHR 0x89
         \<or> c = CHR 0x8A \<or> c = CHR 0xA8 \<or> c = CHR 0xA9 \<or> c = CHR 0xAF))
    \<or> (a = CHR 0xE2 \<and> b = CHR 0x81 \<and> c = CHR 0x9F)
    \<or> (a = CHR 0xE3 \<and> b = CHR 0x80 \<and> c = CHR 0x80)
    \<or> (a = CHR 0xEF \<and> b = CHR 0xBB \<and> c = CHR 0xBF))"

fun trimStart :: "string \<Rightarrow> string" where
  "trimStart [] = []"
| "trimStart [a] = (if is_space a then [] else [a])"
| "trimStart [a, b] =
     (if is_space a then trimStart [b] else if is_space2 a b then [] else [a, b])"
| "trimStart (a # b # c # s) =
     (if is_space a then trimStart (b # c # s)
      else if is_space2 a b then trimStart (c # s)
      else if is_space3 a b c then trimStart s
      else a # b # c # s)"

fun trimEnd_rev :: "string \<Rightarrow> string" where
  "trimEnd_rev [] = []"
| "trimEnd_rev [c] = (if is_space c then [] else [c])"
| "trimEnd_rev [c, b] =
     (if is_space c then trimEnd_rev [b] else if is_space2 b c then [] else [c, b])"
| "trimEnd_rev (c # b # a # s) =
     (if is_space c then trimEnd_rev (b # a # s)
      else if is_space2 b c then trimEnd_rev (a # s)
      else if is_space3 a b c then trimEnd_rev s
      else c # b # a # s)"

definition trim :: "string \<Rightarrow> string" where
  "trim s = rev (trimEnd_rev (rev (trimStart s)))"

fun join :: "string \<Rightarrow> string list \<Rightarrow> string" where
  "join sep [] = []"
| "join sep [x] = x"
| "join sep (x # y # ys) = x @ sep @ join sep (y # ys)"

text \<open>\<^verbatim>\<open>lines.push(x)\<close> on an array held in a local variable.\<close>

definition push :: "'a list \<Rightarrow> 'a \<Rightarrow> 'a list" where
  "push xs x = xs @ [x]"

definition push2 :: "'a list \<Rightarrow> 'a \<Rightarrow> 'a \<Rightarrow> 'a list" where
  "push2 xs x y = xs @ [x, y]"


section \<open>The jail sandbox: \<^verbatim>\<open>SandboxJailConfig\<close> and \<^verbatim>\<open>buildJailCreateArgs\<close>\<close>

text \<open>
  \<^verbatim>\<open>types.jail.ts\<close>: the configuration of one jail sandbox.  Optional fields are
  options; numbers are integers; the \<^verbatim>\<open>env\<close> object is the list of its entries in
  insertion order.
\<close>

datatype network_mode = Inherit | Vnet | NoNetwork

record nullfs_mount =
  nm_src :: string
  nm_dst :: string
  nm_readOnly :: "bool option"

record SandboxJailConfig =
  baseDataset :: string
  baseSnapshot :: string
  cloneParent :: string
  jailPrefix :: string
  workdir :: string
  readOnlyRoot :: bool
  tmpfs :: "string list"
  network :: network_mode
  uid :: "int option"
  devfsRuleset :: "int option"
  env :: "(string \<times> string) list option"
  setupCommand :: "string option"
  maxProc :: "int option"
  memoryuse :: "int option"
  vmemoryuse :: "int option"
  pcpu :: "int option"
  openfiles :: "int option"
  coredumpsize :: "int option"
  extraRctlRules :: "string list option"
  nullfsMounts :: "nullfs_mount list option"
  jailParams :: "string list option"
  dns :: "string list option"
  extraHosts :: "string list option"

text \<open>
  The loop \<^verbatim>\<open>for (const param of cfg.jailParams ?? []) if (param.trim()) args.push(param.trim())\<close>:
  a parameter that is empty after trimming is skipped.
\<close>

fun push_params :: "string list \<Rightarrow> string list \<Rightarrow> string list" where
  "push_params args [] = args"
| "push_params args (param # rest) =
     (if trim param \<noteq> [] then push_params (push args (trim param)) rest
      else push_params args rest)"

text \<open>
  \<^verbatim>\<open>buildJailCreateArgs({ jailName, jailRoot, cfg })\<close>: the argument vector of
  \<^verbatim>\<open>jail -c\<close>, built by the source's sequence of pushes.
\<close>

definition buildJailCreateArgs :: "string \<Rightarrow> string \<Rightarrow> SandboxJailConfig \<Rightarrow> string list" where
  "buildJailCreateArgs jailName jailRoot cfg =
     (let args0 = [''-c'', ''name='' @ jailName, ''path='' @ jailRoot, ''persist'',
                   ''host.hostname='' @ jailName];
          args1 = (if network cfg = NoNetwork then push2 args0 ''ip4=disable'' ''ip6=disable''
                   else if network cfg = Vnet then push args0 ''vnet''
                   else args0);
          args2 = (if readOnlyRoot cfg then push2 args1 ''allow.mount=0'' ''enforce_statfs=2''
                   else push2 args1 ''allow.mount=1'' ''enforce_statfs=1'');
          args3 = push2 args2 ''children.max=0'' ''securelevel=3''
      in push_params args3 (case jailParams cfg of None \<Rightarrow> [] | Some ps \<Rightarrow> ps))"

text \<open>What the source's pushes add for the network mode, and the raw extra parameters kept.\<close>

definition network_args :: "SandboxJailConfig \<Rightarrow> string list" where
  "network_args cfg =
     (case network cfg of NoNetwork \<Rightarrow> [''ip4=disable'', ''ip6=disable'']
      | Vnet \<Rightarrow> [''vnet''] | Inherit \<Rightarrow> [])"

definition extra_params :: "SandboxJailConfig \<Rightarrow> string list" where
  "extra_params cfg =
     filter (\<lambda>p. p \<noteq> []) (map trim (case jailParams cfg of None \<Rightarrow> [] | Some ps \<Rightarrow> ps))"


section \<open>The jail.conf generator: \<^verbatim>\<open>JailConfig\<close> and \<^verbatim>\<open>generateJailFstab\<close>\<close>

record mount_spec =
  src :: string
  dst :: string
  readonly :: "bool option"

record JailConfig =
  name :: string
  rootDir :: string
  hostname :: string
  ip4Addr :: "string option"
  interface :: "string option"
  gatewayPort :: int
  allowRawSockets :: "bool option"
  mounts :: "mount_spec list option"

text \<open>
  The body of the loop over \<^verbatim>\<open>cfg.mounts\<close>: \<^verbatim>\<open>mount.readonly ? "ro" : "rw"\<close> is
  \<^verbatim>\<open>"rw"\<close> for an absent flag, and the pushed line is the template
  \<^verbatim>\<open>${mount.src}\t${cfg.rootDir}${mount.dst}\tnullfs\t${opts}\t0\t0\<close>.
\<close>

definition TAB :: string where
  "TAB = [CHR 0x09]"

definition NL :: string where
  "NL = [CHR 0x0A]"

fun push_mounts :: "JailConfig \<Rightarrow> string list \<Rightarrow> mount_spec list \<Rightarrow> string list" where
  "push_mounts cfg lines [] = lines"
| "push_mounts cfg lines (mount # rest) =
     (let opts = (if readonly mount = Some True then ''ro'' else ''rw'')
      in push_mounts cfg
           (push lines (src mount @ TAB @ rootDir cfg @ dst mount @ TAB @ ''nullfs'' @ TAB
                        @ opts @ TAB @ ''0'' @ TAB @ ''0''))
           rest)"

definition generateJailFstab :: "JailConfig \<Rightarrow> string" where
  "generateJailFstab cfg =
     (let lines0 = [''# FreeClaw jail mount points''];
          lines1 = (case mounts cfg of None \<Rightarrow> lines0 | Some ms \<Rightarrow> push_mounts cfg lines0 ms)
      in join NL lines1 @ NL)"

text \<open>The fstab line the claim describes for one mount, and the mounts configured.\<close>

definition fstab_entry :: "JailConfig \<Rightarrow> mount_spec \<Rightarrow> string" where
  "fstab_entry cfg m =
     src m @ TAB @ (rootDir cfg @ dst m) @ TAB @ ''nullfs'' @ TAB
     @ (if readonly m = Some True then ''ro'' else ''rw'') @ TAB @ ''0'' @ TAB @ ''0''"

definition configured_mounts :: "JailConfig \<Rightarrow> mount_spec list" where
  "configured_mounts cfg = (case mounts cfg of None \<Rightarrow> [] | Some ms \<Rightarrow> ms)"


text \<open>An example configuration: a read-only root, no network, one raw extra parameter.\<close>

definition demo_cfg :: SandboxJailConfig where
  "demo_cfg =
     \<lparr>baseDataset = ''zroot/jails/base'', baseSnapshot = ''clean'',
      cloneParent = ''zroot/jails/sandboxes'', jailPrefix = ''fc-'', workdir = ''/workspace'',
      readOnlyRoot = True, tmpfs = [''/tmp''], network = NoNetwork, uid = Some 1001,
      devfsRuleset = None, env = None, setupCommand = None, maxProc = Some 64,
      memoryuse = None, vmemoryuse = None, pcpu = None, openfiles = None, coredumpsize = Some 0,
      extraRctlRules = None, nullfsMounts = None, jailParams = Some ['' allow.raw_sockets '', '' ''],
      dns = None, extraHosts = None\<rparr>"


text \<open>
  \<^verbatim>\<open>generateJailConf\<close> of \<^verbatim>\<open>freebsd/jail.ts\<close> writes a \<^verbatim>\<open>jail.conf\<close> stanza for a
  gateway jail from a \<^verbatim>\<open>JailConfig\<close>; it is not the argument builder of the sandbox.
  \<open>jail_conf_lines\<close> is the array of lines the function joins, in the order of its pushes.
  \<^verbatim>\<open>resolveDefaultJailConfig\<close> takes \<^verbatim>\<open>path.join\<close> as a parameter.
\<close>

definition DQ :: string where
  "DQ = [CHR 0x22]"

text \<open>The lines pushed at the start, and by each commented block of the function.\<close>

definition conf_head :: "JailConfig \<Rightarrow> string list" where
  "conf_head cfg =
     [name cfg @ '' {'',
      ''    host.hostname = '' @ DQ @ hostname cfg @ DQ @ '';'',
      ''    path = '' @ DQ @ rootDir cfg @ DQ @ '';'',
      [],
      ''    # Lifecycle'',
      ''    exec.start = '' @ DQ @ ''/bin/sh /etc/rc'' @ DQ @ '';'',
      ''    exec.stop = '' @ DQ @ ''/bin/sh /etc/rc.shutdown jail'' @ DQ @ '';'',
      ''    exec.clean;'',
      ''    mount.devfs;'',
      []]"

definition conf_networking :: "JailConfig \<Rightarrow> string list" where
  "conf_networking cfg =
     (case ip4Addr cfg of
        Some (c # cs) \<Rightarrow>
          (let iface = (case interface cfg of Some i \<Rightarrow> i | None \<Rightarrow> ''lo1'')
           in [''    # Network'', ''    ip4.addr = '' @ iface @ ''|'' @ (c # cs) @ '';'', []])
      | _ \<Rightarrow> [])"

definition conf_security :: "JailConfig \<Rightarrow> string list" where
  "conf_security cfg =
     [''    # Security policy'',
      ''    enforce_statfs = 2;'',
      ''    children.max = 0;'',
      ''    allow.raw_sockets = '' @ (if allowRawSockets cfg = Some True then ''1'' else ''0'') @ '';'',
      ''    allow.chflags = 0;'',
      ''    allow.sysvipc = 0;'',
      []]"

definition conf_gateway :: "JailConfig \<Rightarrow> string list" where
  "conf_gateway cfg =
     (let addr = (case ip4Addr cfg of Some a \<Rightarrow> a | None \<Rightarrow> ''127.0.1.1'')
      in [''    # FreeClaw gateway'',
          ''    exec.prestart = '' @ DQ @ ''ifconfig lo1 alias '' @ addr
            @ '' netmask 255.255.255.255 || true'' @ DQ @ '';'',
          ''    exec.poststop = '' @ DQ @ ''ifconfig lo1 -alias '' @ addr
            @ '' || true'' @ DQ @ '';''])"

definition conf_mounts :: "JailConfig \<Rightarrow> string list" where
  "conf_mounts cfg =
     (case mounts cfg of
        Some (m # ms) \<Rightarrow>
          [ [], ''    # Mount points'',
           ''    mount.fstab = '' @ DQ @ rootDir cfg @ ''/etc/fstab.freeclaw'' @ DQ @ '';'']
      | _ \<Rightarrow> [])"

definition jail_conf_lines :: "JailConfig \<Rightarrow> string list" where
  "jail_conf_lines cfg =
     conf_head cfg @ conf_networking cfg @ conf_security cfg @ conf_gateway cfg
     @ conf_mounts cfg @ [''}'']"

definition generateJailConf :: "JailConfig \<Rightarrow> string" where
  "generateJailConf cfg = join NL (jail_conf_lines cfg)"

record default_jail_opts =
  d_name :: "string option"
  d_ip4Addr :: "string option"
  d_gatewayPort :: "int option"
  d_rootDir :: "string option"

definition resolveDefaultJailConfig ::
  "(string \<Rightarrow> string \<Rightarrow> string) \<Rightarrow> default_jail_opts option \<Rightarrow> JailConfig" where
  "resolveDefaultJailConfig path_join opts =
     (let the_name = (case (case opts of Some d \<Rightarrow> d_name d | None \<Rightarrow> None) of
                        Some n \<Rightarrow> n | None \<Rightarrow> ''freeclaw0'')
      in \<lparr>name = the_name,
          rootDir = (case (case opts of Some d \<Rightarrow> d_rootDir d | None \<Rightarrow> None) of
                       Some r \<Rightarrow> r | None \<Rightarrow> path_join ''/usr/local/jails'' the_name),
          hostname = the_name @ ''.local'',
          ip4Addr = Some (case (case opts of Some d \<Rightarrow> d_ip4Addr d | None \<Rightarrow> None) of
                            Some a \<Rightarrow> a | None \<Rightarrow> ''127.0.1.1''),
          interface = Some ''lo1'',
          gatewayPort = (case (case opts of Some d \<Rightarrow> d_gatewayPort d | None \<Rightarrow> None) of
                           Some p \<Rightarrow> p | None \<Rightarrow> 18789),
          allowRawSockets = Some False,
          mounts = None\<rparr>)"


section \<open>External tools\<close>

text \<open>
  Every kernel tool is run out of process through \<^verbatim>\<open>execFile\<close>.  A command is the
  binary, its argument vector and the time-out given; its outcome is either a normal exit
  with the captured standard output and standard error, or the rejection of the promise
  with an error object (non-zero exit, signal, time-out, failure to start) whose fields
  may be absent.  The tool itself is a parameter of the model: a transition of an
  arbitrary world, so that what other processes do between two commands is part of it.
  The state of a module holds the world and the trace of the commands issued with their
  outcomes.
\<close>

datatype errcode = CodeNum int | CodeStr string | CodeNone

record exec_error =
  e_message :: "string option"
  e_stdout :: "string option"
  e_stderr :: "string option"
  e_code :: errcode

datatype outcome = Exited string string | Rejected exec_error

record command =
  c_bin :: string
  c_args :: "string list"
  c_timeout :: nat

type_synonym 'w tool = "'w \<Rightarrow> command \<Rightarrow> outcome \<times> 'w"

fun is_exited :: "outcome \<Rightarrow> bool" where
  "is_exited (Exited out err) = True"
| "is_exited (Rejected e) = False"

text \<open>A scripted tool answers the commands with the outcomes of a list, in order.\<close>

definition no_answer :: outcome where
  "no_answer = Rejected \<lparr>e_message = None, e_stdout = None, e_stderr = None, e_code = CodeNone\<rparr>"

fun scripted :: "outcome list tool" where
  "scripted [] c = (no_answer, [])"
| "scripted (r # rs) c = (r, rs)"


section \<open>\<^verbatim>\<open>zfs.ts\<close>: datasets, snapshots and clones\<close>

record zfs_err =
  z_error :: string
  z_code :: errcode

datatype thrown = ErrorObject exec_error | NotAnObject

record 'w zstate =
  resolvedPoolCache :: "string option"
  world :: 'w
  trace :: "(command \<times> outcome) list"

definition ZFS_poolName :: string where "ZFS_poolName = []"
definition ZFS_parentDataset :: string where "ZFS_parentDataset = ''freeclaw''"
definition ZFS_workspacesDir :: string where "ZFS_workspacesDir = ''workspaces''"
definition ZFS_sandboxesDir :: string where "ZFS_sandboxesDir = ''sandboxes''"
definition ZFS_baseJailDataset :: string where "ZFS_baseJailDataset = ''freeclaw/base-jail''"
definition ZFS_compression :: string where "ZFS_compression = ''lz4''"
definition ZFS_timeoutMs :: nat where "ZFS_timeoutMs = 30000"
definition BASE_SNAPSHOT_LABEL :: string where "BASE_SNAPSHOT_LABEL = ''freeclaw-base''"

definition zfs_cmd :: "string list \<Rightarrow> command" where
  "zfs_cmd as = \<lparr>c_bin = ''/sbin/zfs'', c_args = as, c_timeout = ZFS_timeoutMs\<rparr>"

definition zpool_cmd :: "string list \<Rightarrow> command" where
  "zpool_cmd as = \<lparr>c_bin = ''/sbin/zpool'', c_args = as, c_timeout = ZFS_timeoutMs\<rparr>"

definition run_tool :: "'w tool \<Rightarrow> command \<Rightarrow> 'w zstate \<Rightarrow> outcome \<times> 'w zstate" where
  "run_tool sys c s =
     (case sys (world s) c of
        (r, w') \<Rightarrow> (r, s\<lparr>world := w', trace := trace s @ [(c, r)]\<rparr>))"

definition zfs :: "'w tool \<Rightarrow> string list \<Rightarrow> 'w zstate \<Rightarrow> outcome \<times> 'w zstate" where
  "zfs sys as s = run_tool sys (zfs_cmd as) s"

definition zpool :: "'w tool \<Rightarrow> string list \<Rightarrow> 'w zstate \<Rightarrow> outcome \<times> 'w zstate" where
  "zpool sys as s = run_tool sys (zpool_cmd as) s"

text \<open>
  \<^verbatim>\<open>fail(error, fallback)\<close>: the message is the first non-empty one of the trimmed
  standard error, the error's message and the fallback; a thrown value that is not an
  object gives the fallback alone.
\<close>

definition fail :: "thrown \<Rightarrow> string \<Rightarrow> zfs_err" where
  "fail error fallback =
     (case error of
        ErrorObject err \<Rightarrow>
          (let stderr_trimmed = map_option trim (e_stderr err);
               msg = (case stderr_trimmed of
                        Some (c # cs) \<Rightarrow> c # cs
                      | _ \<Rightarrow>
                        (case e_message err of
                           Some (c # cs) \<Rightarrow> c # cs
                         | _ \<Rightarrow> fallback))
           in \<lparr>z_error = msg, z_code = e_code err\<rparr>)
      | NotAnObject \<Rightarrow> \<lparr>z_error = fallback, z_code = CodeNone\<rparr>)"

text \<open>\<^verbatim>\<open>s.split("\n")\<close>: an empty string splits into one empty piece.\<close>

fun split_on :: "char \<Rightarrow> string \<Rightarrow> string list" where
  "split_on c [] = [ [] ]"
| "split_on c (x # xs) =
     (if x = c then [] # split_on c xs
      else (case split_on c xs of
              [] \<Rightarrow> [ [x] ]
            | y # ys \<Rightarrow> (x # y) # ys))"

text \<open>
  \<^verbatim>\<open>resolveZfsPool\<close>: the cached pool when there is one, the configured pool name when
  it is not empty, otherwise \<^verbatim>\<open>zroot\<close> when \<^verbatim>\<open>zpool list -H -o name\<close> reports it
  and the first pool reported when not.
\<close>

definition resolveZfsPool :: "'w tool \<Rightarrow> 'w zstate \<Rightarrow> (zfs_err + string) \<times> 'w zstate" where
  "resolveZfsPool sys s =
     (case resolvedPoolCache s of
        Some (c # cs) \<Rightarrow> (Inr (c # cs), s)
      | _ \<Rightarrow>
        if ZFS_poolName \<noteq> [] then (Inr ZFS_poolName, s\<lparr>resolvedPoolCache := Some ZFS_poolName\<rparr>)
        else
          (case zpool sys [''list'', ''-H'', ''-o'', ''name''] s of
             (Exited out err, s1) \<Rightarrow>
               (let pools = filter (\<lambda>l. l \<noteq> []) (map trim (split_on (CHR 0x0A) (trim out)))
                in case pools of
                     [] \<Rightarrow> (Inl \<lparr>z_error = ''No ZFS pools found'', z_code = CodeNone\<rparr>, s1)
                   | p # ps \<Rightarrow>
                       (let pool = (if ''zroot'' \<in> set pools then ''zroot'' else p)
                        in (Inr pool, s1\<lparr>resolvedPoolCache := Some pool\<rparr>)))
           | (Rejected e, s1) \<Rightarrow> (Inl (fail (ErrorObject e) ''Failed to list ZFS pools''), s1)))"

definition resolveWorkspaceDatasetName ::
  "'w tool \<Rightarrow> string \<Rightarrow> 'w zstate \<Rightarrow> (zfs_err + string) \<times> 'w zstate" where
  "resolveWorkspaceDatasetName sys agentId s =
     (case resolveZfsPool sys s of
        (Inl e, s1) \<Rightarrow> (Inl e, s1)
      | (Inr pool, s1) \<Rightarrow>
          (Inr (pool @ ''/'' @ ZFS_parentDataset @ ''/'' @ ZFS_workspacesDir @ ''/'' @ agentId), s1))"

definition resolveSandboxDatasetName ::
  "'w tool \<Rightarrow> string \<Rightarrow> 'w zstate \<Rightarrow> (zfs_err + string) \<times> 'w zstate" where
  "resolveSandboxDatasetName sys sessionKey s =
     (case resolveZfsPool sys s of
        (Inl e, s1) \<Rightarrow> (Inl e, s1)
      | (Inr pool, s1) \<Rightarrow>
          (Inr (pool @ ''/'' @ ZFS_parentDataset @ ''/'' @ ZFS_sandboxesDir @ ''/'' @ sessionKey), s1))"

definition datasetExists :: "'w tool \<Rightarrow> string \<Rightarrow> 'w zstate \<Rightarrow> bool \<times> 'w zstate" where
  "datasetExists sys dataset s =
     (case zfs sys [''list'', ''-H'', ''-o'', ''name'', dataset] s of
        (Exited out err, s1) \<Rightarrow> (True, s1)
      | (Rejected e, s1) \<Rightarrow> (False, s1))"

definition ensureWorkspaceDataset ::
  "'w tool \<Rightarrow> string \<Rightarrow> 'w zstate \<Rightarrow> (zfs_err + string) \<times> 'w zstate" where
  "ensureWorkspaceDataset sys agentId s =
     (case resolveWorkspaceDatasetName sys agentId s of
        (Inl e, s1) \<Rightarrow> (Inl e, s1)
      | (Inr dataset, s1) \<Rightarrow>
          (case datasetExists sys dataset s1 of
             (True, s2) \<Rightarrow> (Inr dataset, s2)
           | (False, s2) \<Rightarrow>
               (let args0 = [''create'', ''-p''];
                    args1 = (if ZFS_compression \<noteq> []
                             then push2 args0 ''-o'' (''compression='' @ ZFS_compression)
                             else args0);
                    args2 = push args1 dataset
                in case zfs sys args2 s2 of
                     (Exited out err, s3) \<Rightarrow> (Inr dataset, s3)
                   | (Rejected e, s3) \<Rightarrow>
                       (case datasetExists sys dataset s3 of
                          (True, s4) \<Rightarrow> (Inr dataset, s4)
                        | (False, s4) \<Rightarrow>
                            (Inl (fail (ErrorObject e)
                                    (''Failed to create workspace dataset: '' @ dataset)), s4)))))"

text \<open>
  \<^verbatim>\<open>cloneDataset.substring(0, cloneDataset.lastIndexOf("/"))\<close>: \<^verbatim>\<open>lastIndexOf\<close> is
  \<open>-1\<close> when there is no slash, and \<^verbatim>\<open>substring\<close> clamps its bounds.
\<close>

fun lastIndexOf :: "char \<Rightarrow> string \<Rightarrow> int" where
  "lastIndexOf c [] = - 1"
| "lastIndexOf c (x # xs) =
     (let i = lastIndexOf c xs
      in if 0 \<le> i then i + 1 else if x = c then 0 else - 1)"

definition substring0 :: "string \<Rightarrow> int \<Rightarrow> string" where
  "substring0 s e = take (nat e) s"

definition cloneForSandbox ::
  "'w tool \<Rightarrow> string \<Rightarrow> 'w zstate \<Rightarrow> (zfs_err + string) \<times> 'w zstate" where
  "cloneForSandbox sys sessionKey s =
     (case resolveZfsPool sys s of
        (Inl e, s1) \<Rightarrow> (Inl e, s1)
      | (Inr pool, s1) \<Rightarrow>
          (let baseSnapshot = pool @ ''/'' @ ZFS_baseJailDataset @ ''@'' @ BASE_SNAPSHOT_LABEL
           in case resolveSandboxDatasetName sys sessionKey s1 of
                (Inl e, s2) \<Rightarrow> (Inl e, s2)
              | (Inr cloneDataset, s2) \<Rightarrow>
                  (case datasetExists sys cloneDataset s2 of
                     (True, s3) \<Rightarrow> (Inr cloneDataset, s3)
                   | (False, s3) \<Rightarrow>
                       (let parentDataset =
                              substring0 cloneDataset (lastIndexOf (CHR ''/'') cloneDataset);
                            clone = (\<lambda>s6.
                              case zfs sys [''clone'', baseSnapshot, cloneDataset] s6 of
                                (Exited out err, s7) \<Rightarrow> (Inr cloneDataset, s7)
                              | (Rejected e, s7) \<Rightarrow>
                                  (Inl (fail (ErrorObject e)
                                          (''Failed to clone for sandbox: '' @ cloneDataset)), s7))
                        in case datasetExists sys parentDataset s3 of
                             (True, s4) \<Rightarrow> clone s4
                           | (False, s4) \<Rightarrow>
                               (case zfs sys [''create'', ''-p'', parentDataset] s4 of
                                  (Exited out err, s5) \<Rightarrow> clone s5
                                | (Rejected e, s5) \<Rightarrow>
                                    (case datasetExists sys parentDataset s5 of
                                       (True, s6) \<Rightarrow> clone s6
                                     | (False, s6) \<Rightarrow>
                                         (Inl \<lparr>z_error = ''Failed to create parent dataset: ''
                                                  @ parentDataset,
                                               z_code = CodeNone\<rparr>, s6)))))))"

definition ensureSandboxDataset ::
  "'w tool \<Rightarrow> string \<Rightarrow> 'w zstate \<Rightarrow> (zfs_err + string) \<times> 'w zstate" where
  "ensureSandboxDataset sys sessionKey s =
     (case resolveSandboxDatasetName sys sessionKey s of
        (Inl e, s1) \<Rightarrow> (Inl e, s1)
      | (Inr dataset, s1) \<Rightarrow>
          (case datasetExists sys dataset s1 of
             (True, s2) \<Rightarrow> (Inr dataset, s2)
           | (False, s2) \<Rightarrow> cloneForSandbox sys sessionKey s2))"

definition destroySandboxDataset ::
  "'w tool \<Rightarrow> string \<Rightarrow> 'w zstate \<Rightarrow> (zfs_err + unit) \<times> 'w zstate" where
  "destroySandboxDataset sys sessionKey s =
     (case resolveSandboxDatasetName sys sessionKey s of
        (Inl e, s1) \<Rightarrow> (Inl e, s1)
      | (Inr dataset, s1) \<Rightarrow>
          (case datasetExists sys dataset s1 of
             (False, s2) \<Rightarrow> (Inr (), s2)
           | (True, s2) \<Rightarrow>
               (case zfs sys [''destroy'', ''-r'', dataset] s2 of
                  (Exited out err, s3) \<Rightarrow> (Inr (), s3)
                | (Rejected e, s3) \<Rightarrow>
                    (Inl (fail (ErrorObject e)
                            (''Failed to destroy sandbox dataset: '' @ dataset)), s3))))"

definition createBaseSnapshot ::
  "'w tool \<Rightarrow> 'w zstate \<Rightarrow> (zfs_err + string) \<times> 'w zstate" where
  "createBaseSnapshot sys s =
     (case resolveZfsPool sys s of
        (Inl e, s1) \<Rightarrow> (Inl e, s1)
      | (Inr pool, s1) \<Rightarrow>
          (let baseDataset = pool @ ''/'' @ ZFS_baseJailDataset;
               snapshot = baseDataset @ ''@'' @ BASE_SNAPSHOT_LABEL;
               create = (\<lambda>s4.
                 case zfs sys [''snapshot'', snapshot] s4 of
                   (Exited out err, s5) \<Rightarrow> (Inr snapshot, s5)
                 | (Rejected e, s5) \<Rightarrow>
                     (Inl (fail (ErrorObject e)
                             (''Failed to create base snapshot: '' @ snapshot)), s5))
           in case zfs sys [''list'', ''-H'', ''-t'', ''snapshot'', snapshot] s1 of
                (Exited out err, s2) \<Rightarrow>
                  (case zfs sys [''destroy'', snapshot] s2 of
                     (Exited out' err', s3) \<Rightarrow> create s3
                   | (Rejected e, s3) \<Rightarrow> (Inr snapshot, s3))
              | (Rejected e, s2) \<Rightarrow> create s2))"

text \<open>The names the claims use: the sandbox dataset, its parent, the base snapshot.\<close>

definition sandbox_dataset :: "string \<Rightarrow> string \<Rightarrow> string" where
  "sandbox_dataset pool sessionKey = pool @ ''/freeclaw/sandboxes/'' @ sessionKey"

definition workspace_dataset :: "string \<Rightarrow> string \<Rightarrow> string" where
  "workspace_dataset pool agentId = pool @ ''/freeclaw/workspaces/'' @ agentId"

definition parent_of :: "string \<Rightarrow> string" where
  "parent_of dataset = substring0 dataset (lastIndexOf (CHR ''/'') dataset)"

definition base_snapshot :: "string \<Rightarrow> string" where
  "base_snapshot pool = pool @ ''/freeclaw/base-jail@freeclaw-base''"

definition clone_result :: "string \<Rightarrow> outcome \<Rightarrow> zfs_err + string" where
  "clone_result dataset r =
     (case r of
        Exited out err \<Rightarrow> Inr dataset
      | Rejected e \<Rightarrow> Inl (fail (ErrorObject e) (''Failed to clone for sandbox: '' @ dataset)))"

definition initial_state :: "'w \<Rightarrow> 'w zstate" where
  "initial_state w = \<lparr>resolvedPoolCache = None, world = w, trace = []\<rparr>"

text \<open>What a call returns after its last command: the destroy and the snapshot.\<close>

definition destroy_result :: "string \<Rightarrow> outcome \<Rightarrow> zfs_err + unit" where
  "destroy_result dataset r =
     (case r of
        Exited out err \<Rightarrow> Inr ()
      | Rejected e \<Rightarrow>
          Inl (fail (ErrorObject e) (''Failed to destroy sandbox dataset: '' @ dataset)))"

definition snapshot_result :: "string \<Rightarrow> outcome \<Rightarrow> zfs_err + string" where
  "snapshot_result snapshot r =
     (case r of
        Exited out err \<Rightarrow> Inr snapshot
      | Rejected e \<Rightarrow>
          Inl (fail (ErrorObject e) (''Failed to create base snapshot: '' @ snapshot)))"

definition snapshot_listed :: "'w tool \<Rightarrow> 'w \<Rightarrow> string \<Rightarrow> bool" where
  "snapshot_listed sys w snapshot =
     is_exited (fst (sys w (zfs_cmd [''list'', ''-H'', ''-t'', ''snapshot'', snapshot])))"

definition snapshot_contract :: "'w tool \<Rightarrow> string \<Rightarrow> bool" where
  "snapshot_contract sys snapshot =
     ((\<forall>w. snapshot_listed sys
              (snd (sys w (zfs_cmd [''list'', ''-H'', ''-t'', ''snapshot'', snapshot]))) snapshot
            = snapshot_listed sys w snapshot)
    \<and> (\<forall>w. \<not> is_exited (fst (sys w (zfs_cmd [''destroy'', snapshot]))) \<longrightarrow>
            snapshot_listed sys (snd (sys w (zfs_cmd [''destroy'', snapshot]))) snapshot
            = snapshot_listed sys w snapshot)
    \<and> (\<forall>w. is_exited (fst (sys w (zfs_cmd [''snapshot'', snapshot]))) \<longrightarrow>
            snapshot_listed sys (snd (sys w (zfs_cmd [''snapshot'', snapshot]))) snapshot))"


text \<open>
  Example runs against a scripted tool: \<^verbatim>\<open>zpool list\<close> reports the pool
  \<^verbatim>\<open>zroot\<close>, and the state after each command is the state before it with the
  command and the next scripted outcome appended to the trace.
\<close>

definition zroot_listing :: outcome where
  "zroot_listing = Exited (''zroot'' @ NL) []"

definition done_ok :: outcome where
  "done_ok = Exited [] []"

definition refused :: exec_error where
  "refused = \<lparr>e_message = Some ''Command failed'', e_stdout = Some [],
              e_stderr = Some (''cannot open: dataset does not exist'' @ NL), e_code = CodeNum 1\<rparr>"

definition pooled :: "'w \<Rightarrow> 'w zstate" where
  "pooled script =
     \<lparr>resolvedPoolCache = Some ''zroot'', world = script,
      trace = [(zpool_cmd [''list'', ''-H'', ''-o'', ''name''], zroot_listing)]\<rparr>"

definition answered :: "outcome list zstate \<Rightarrow> string list \<Rightarrow> outcome list zstate" where
  "answered s as =
     (case world s of
        [] \<Rightarrow> s\<lparr>trace := trace s @ [(zfs_cmd as, no_answer)]\<rparr>
      | r # rs \<Rightarrow> s\<lparr>world := rs, trace := trace s @ [(zfs_cmd as, r)]\<rparr>)"

text \<open>
  A tool that keeps one fact about the base snapshot, whether it is present, and one about
  its clones, whether any depends on it: \<^verbatim>\<open>zfs list\<close> succeeds when the snapshot is
  present, \<^verbatim>\<open>zfs destroy\<close> removes a present snapshot that no clone depends on and
  fails otherwise, \<^verbatim>\<open>zfs snapshot\<close> creates an absent snapshot and fails on a present
  one.
\<close>

definition snap_sim :: "(bool \<times> bool) tool" where
  "snap_sim w c =
     (case w of
        (present, clones) \<Rightarrow>
          if c_bin c = ''/sbin/zpool'' then (zroot_listing, w)
          else if take 1 (c_args c) = [''list'']
          then (if present then done_ok else Rejected refused, w)
          else if take 1 (c_args c) = [''destroy'']
          then (if present \<and> \<not> clones then (done_ok, (False, clones)) else (Rejected refused, w))
          else if take 1 (c_args c) = [''snapshot'']
          then (if present then (Rejected refused, w) else (done_ok, (True, clones)))
          else (Rejected refused, w))"

section \<open>The Capsicum launcher: \<^verbatim>\<open>isCapsicumAvailable\<close>, \<^verbatim>\<open>generateCapHelper\<close>, \<^verbatim>\<open>buildCapsicumLauncher\<close>\<close>

text \<open>
  What the module reads from its host is a record: the platform, the output of
  \<^verbatim>\<open>sysctl -n kern.features.security_capabilities\<close> (\<open>None\<close> when \<^verbatim>\<open>execSync\<close>
  throws), the paths computed when the module is loaded, whether the helper binary exists,
  and for each step of the compilation the error it throws, if any.  The module's state is
  its two caches and the lines it has logged.
\<close>

record capsicum_host =
  IS_FREEBSD :: bool
  sysctl_capabilities :: "string option"
  BIN_DIR :: string
  CAP_EXEC_BIN :: string
  CAP_EXEC_SRC :: string
  bin_exists :: bool
  mkdir_error :: "string option"
  write_error :: "string option"
  cc_error :: "string option"
  chmod_error :: "string option"

datatype log_level = LogInfo | LogWarn

record capsicum_state =
  capsicumAvailable :: "bool option"
  capHelperReady :: bool
  logged :: "(log_level \<times> string) list"

definition logWarn :: "string \<Rightarrow> capsicum_state \<Rightarrow> capsicum_state" where
  "logWarn msg st = st\<lparr>logged := logged st @ [(LogWarn, msg)]\<rparr>"

definition logInfo :: "string \<Rightarrow> capsicum_state \<Rightarrow> capsicum_state" where
  "logInfo msg st = st\<lparr>logged := logged st @ [(LogInfo, msg)]\<rparr>"

definition isCapsicumAvailable :: "capsicum_host \<Rightarrow> capsicum_state \<Rightarrow> bool \<times> capsicum_state" where
  "isCapsicumAvailable host st =
     (case capsicumAvailable st of
        Some cached \<Rightarrow> (cached, st)
      | None \<Rightarrow>
          if \<not> IS_FREEBSD host then (False, st\<lparr>capsicumAvailable := Some False\<rparr>)
          else
            (let available = (case sysctl_capabilities host of
                                Some out \<Rightarrow> trim out = ''1''
                              | None \<Rightarrow> False);
                 st1 = st\<lparr>capsicumAvailable := Some available\<rparr>;
                 st2 = (if \<not> available
                        then logWarn (''capsicum: Capsicum capability mode is not available on this kernel. ''
                                      @ ''Commands will run without Capsicum sandboxing.'') st1
                        else logInfo ''capsicum: Capsicum capability mode detected and available.'' st1)
             in (available, st2)))"

definition generateCapHelper ::
  "capsicum_host \<Rightarrow> capsicum_state \<Rightarrow> string option \<times> capsicum_state" where
  "generateCapHelper host st =
     (if capHelperReady st \<and> bin_exists host then (Some (CAP_EXEC_BIN host), st)
      else
        (case mkdir_error host of
           Some err \<Rightarrow>
             (None, logWarn (''capsicum: failed to create bin directory '' @ BIN_DIR host
                             @ '': '' @ err) st)
         | None \<Rightarrow>
             (case write_error host of
                Some err \<Rightarrow>
                  (None, logWarn (''capsicum: failed to write C source to '' @ CAP_EXEC_SRC host
                                  @ '': '' @ err) st)
              | None \<Rightarrow>
                  (case (case cc_error host of Some err \<Rightarrow> Some err | None \<Rightarrow> chmod_error host) of
                     Some err \<Rightarrow>
                       (None, logWarn (''capsicum: failed to compile Capsicum helper: '' @ err
                                       @ ''. '' @ ''Commands will run without Capsicum sandboxing.'') st)
                   | None \<Rightarrow>
                       (Some (CAP_EXEC_BIN host),
                        logInfo (''capsicum: compiled Capsicum helper at '' @ CAP_EXEC_BIN host)
                          (st\<lparr>capHelperReady := True\<rparr>))))))"

record CapsicumPolicy =
  allowRead :: "string list"
  allowWrite :: "string list"
  allowExec :: "string list"
  allowNet :: bool
  tmpDir :: "string option"

record launcher_opts =
  l_command :: string
  l_workdir :: string
  l_policy :: "CapsicumPolicy option"

record launcher =
  argv :: "string list"
  sandboxed :: bool

text \<open>
  \<^verbatim>\<open>buildCapsicumLauncher(opts)\<close>.  \<^verbatim>\<open>if (!helperPath)\<close> also takes an empty path for
  an unavailable helper; \<^verbatim>\<open>opts.policy?.allowNet ?? false\<close> is false without a policy.
\<close>

definition buildCapsicumLauncher ::
  "capsicum_host \<Rightarrow> launcher_opts \<Rightarrow> capsicum_state \<Rightarrow> launcher \<times> capsicum_state" where
  "buildCapsicumLauncher host opts st =
     (case isCapsicumAvailable host st of
        (False, st1) \<Rightarrow>
          (\<lparr>argv = [''/bin/sh'', ''-c'', l_command opts], sandboxed = False\<rparr>, st1)
      | (True, st1) \<Rightarrow>
          (case generateCapHelper host st1 of
             (Some (c # cs), st2) \<Rightarrow>
               (let helperPath = c # cs;
                    allowNet = (case l_policy opts of Some policy \<Rightarrow> allowNet policy | None \<Rightarrow> False)
                in (\<lparr>argv = [helperPath, l_workdir opts, if allowNet then ''1'' else ''0'',
                            ''/bin/sh'', ''-c'', l_command opts],
                     sandboxed = True\<rparr>, st2))
           | (_, st2) \<Rightarrow>
               (\<lparr>argv = [''/bin/sh'', ''-c'', l_command opts], sandboxed = False\<rparr>,
                logWarn ''capsicum: Capsicum helper unavailable; running command without sandbox.'' st2)))"

text \<open>
  The two ways the claim names for capability mode to be unavailable on a host, read before
  any call has filled the caches: the kernel does not report the feature, or the helper
  cannot be compiled.
\<close>

definition kernel_lacks_capsicum :: "capsicum_host \<Rightarrow> bool" where
  "kernel_lacks_capsicum host =
     (\<not> IS_FREEBSD host \<or>
      (case sysctl_capabilities host of None \<Rightarrow> True | Some out \<Rightarrow> trim out \<noteq> ''1''))"

definition helper_cannot_compile :: "capsicum_host \<Rightarrow> bool" where
  "helper_cannot_compile host =
     (mkdir_error host \<noteq> None \<or> write_error host \<noteq> None \<or> cc_error host \<noteq> None
      \<or> chmod_error host \<noteq> None)"

definition fresh_state :: capsicum_state where
  "fresh_state = \<lparr>capsicumAvailable = None, capHelperReady = False, logged = []\<rparr>"

definition demo_host :: capsicum_host where
  "demo_host =
     \<lparr>IS_FREEBSD = True, sysctl_capabilities = Some (''1'' @ NL),
      BIN_DIR = ''/root/.freeclaw/bin'', CAP_EXEC_BIN = ''/root/.freeclaw/bin/freeclaw-cap-exec'',
      CAP_EXEC_SRC = ''/root/.freeclaw/bin/cap_exec.c'', bin_exists = False,
      mkdir_error = None, write_error = None, cc_error = None, chmod_error = None\<rparr>"


text \<open>
  \<^verbatim>\<open>capsicumExec(command, opts)\<close> spawns the launcher's argument vector and resolves with
  what the child did: the first of its \<^verbatim>\<open>error\<close> and \<^verbatim>\<open>close\<close> events.  The child's
  environment is \<^verbatim>\<open>process.env\<close> overridden by \<^verbatim>\<open>opts.env\<close>, with \<^verbatim>\<open>TMPDIR\<close> set
  from a non-empty \<^verbatim>\<open>policy.tmpDir\<close>.  The promise is never rejected.
\<close>

datatype child_outcome = SpawnFailed string string string | ChildClosed string string "int option"

record spawn_request =
  sp_argv :: "string list"
  sp_cwd :: string
  sp_env :: "string \<rightharpoonup> string"
  sp_detached :: bool

record CapsicumExecOptions =
  x_workdir :: string
  x_env :: "(string \<times> string) list option"
  x_policy :: "CapsicumPolicy option"
  x_timeoutMs :: "nat option"

record CapsicumExecResult =
  r_stdout :: string
  r_stderr :: string
  exitCode :: "int option"
  r_sandboxed :: bool

definition capsicumExec ::
  "capsicum_host \<Rightarrow> (string \<rightharpoonup> string) \<Rightarrow> ('w \<Rightarrow> spawn_request \<Rightarrow> child_outcome \<times> 'w) \<Rightarrow>
   string \<Rightarrow> CapsicumExecOptions \<Rightarrow> capsicum_state \<Rightarrow> 'w \<Rightarrow> CapsicumExecResult \<times> capsicum_state \<times> 'w" where
  "capsicumExec host process_env spawn command opts st w =
     (case buildCapsicumLauncher host
             \<lparr>l_command = command, l_workdir = x_workdir opts, l_policy = x_policy opts\<rparr> st of
        (launch, st1) \<Rightarrow>
          (let env0 = process_env ++ map_of (case x_env opts of Some kvs \<Rightarrow> kvs | None \<Rightarrow> []);
               env1 = (case x_policy opts of
                         Some policy \<Rightarrow>
                           (case tmpDir policy of
                              Some (c # cs) \<Rightarrow> env0(''TMPDIR'' \<mapsto> c # cs)
                            | _ \<Rightarrow> env0)
                       | None \<Rightarrow> env0)
           in case spawn w \<lparr>sp_argv = argv launch, sp_cwd = x_workdir opts, sp_env = env1,
                             sp_detached = IS_FREEBSD host\<rparr> of
                (SpawnFailed out err msg, w') \<Rightarrow>
                  (\<lparr>r_stdout = out,
                    r_stderr = err @ NL @ ''[capsicum] spawn error: '' @ msg,
                    exitCode = Some 126, r_sandboxed = sandboxed launch\<rparr>,
                   logWarn (''capsicum: child process error: '' @ msg) st1, w')
              | (ChildClosed out err exit_code, w') \<Rightarrow>
                  (\<lparr>r_stdout = out, r_stderr = err, exitCode = exit_code,
                    r_sandboxed = sandboxed launch\<rparr>, st1, w')))"


section \<open>The jail sandbox: \<^verbatim>\<open>jailExec\<close>\<close>

text \<open>
  \<^verbatim>\<open>String(n)\<close> and \<^verbatim>\<open>${n}\<close> for an integer: its decimal digits, with a minus sign
  when it is negative.
\<close>

fun show_nat :: "nat \<Rightarrow> string" where
  "show_nat n =
     (if n < 10 then [''0123456789'' ! n]
      else show_nat (n div 10) @ [''0123456789'' ! (n mod 10)])"

definition show_int :: "int \<Rightarrow> string" where
  "show_int i = (if i < 0 then ''-'' @ show_nat (nat (- i)) else show_nat (nat i))"

text \<open>
  \<^verbatim>\<open>shellEscape\<close>: a non-empty string of characters matched by
  \<^verbatim>\<open>/^[a-zA-Z0-9_./:=@%^+,-]+$/\<close> is kept; any other string is put in single quotes, each
  single quote in it replaced by the four characters \<^verbatim>\<open>'\''\<close>.
\<close>

definition safe_char :: "char \<Rightarrow> bool" where
  "safe_char c =
     (c \<in> set ''abcdefghijklmnopqrstuvwxyzABCDEFGHIJKLMNOPQRSTUVWXYZ0123456789_./:=@%^+,-'')"

definition shellEscape :: "string \<Rightarrow> string" where
  "shellEscape s =
     (if s \<noteq> [] \<and> list_all safe_char s then s
      else [CHR 0x27]
           @ concat (map (\<lambda>c. if c = CHR 0x27 then [CHR 0x27, CHR 0x5C, CHR 0x27, CHR 0x27]
                               else [c]) s)
           @ [CHR 0x27])"

record jail_exec_opts =
  allowFailure :: "bool option"
  opt_env :: "(string \<times> string) list option"
  opt_uid :: "int option"
  opt_workdir :: "string option"
  timeoutMs :: "nat option"

record ExecResult =
  stdout :: string
  stderr :: string
  code :: int

datatype js_error = Error string

text \<open>
  The argument vector \<^verbatim>\<open>jailExec\<close> gives to \<^verbatim>\<open>jexec\<close>: the user id when there is
  one, the jail's name, and the command, wrapped in \<^verbatim>\<open>/usr/bin/env ... sh -c\<close> when the
  options hold a non-empty environment or a non-empty working directory.
\<close>

definition jailExec_args :: "string \<Rightarrow> string list \<Rightarrow> jail_exec_opts option \<Rightarrow> string list" where
  "jailExec_args jailName command opts =
     (let the_uid = (case opts of Some opt \<Rightarrow> opt_uid opt | None \<Rightarrow> None);
          the_env = (case opts of Some opt \<Rightarrow> opt_env opt | None \<Rightarrow> None);
          the_workdir = (case opts of Some opt \<Rightarrow> opt_workdir opt | None \<Rightarrow> None);
          args0 = (case the_uid of Some u \<Rightarrow> push2 [] ''-U'' (show_int u) | None \<Rightarrow> []);
          args1 = push args0 jailName;
          has_env = (case the_env of Some (kv # kvs) \<Rightarrow> True | _ \<Rightarrow> False);
          has_workdir = (case the_workdir of Some (c # cs) \<Rightarrow> True | _ \<Rightarrow> False);
          needsWrapper = (has_env \<or> has_workdir)
      in if needsWrapper
         then (let envPairs = map (\<lambda>(k, v). k @ ''='' @ v)
                                (case the_env of Some kvs \<Rightarrow> kvs | None \<Rightarrow> []);
                   cdPrefix = (case the_workdir of
                                 Some (c # cs) \<Rightarrow> ''cd '' @ shellEscape (c # cs) @ '' &&''
                               | _ \<Rightarrow> []);
                   inner = join '' '' (map shellEscape command)
               in args1 @ [''/usr/bin/env''] @ envPairs @ [''sh'', ''-c'', cdPrefix @ '' '' @ inner])
         else args1 @ command)"

definition jailExec_command :: "string \<Rightarrow> string list \<Rightarrow> jail_exec_opts option \<Rightarrow> command" where
  "jailExec_command jailName command opts =
     \<lparr>c_bin = ''jexec'', c_args = jailExec_args jailName command opts,
      c_timeout = (case (case opts of Some opt \<Rightarrow> timeoutMs opt | None \<Rightarrow> None) of
                     Some t \<Rightarrow> t | None \<Rightarrow> 300000)\<rparr>"

text \<open>
  \<^verbatim>\<open>jailExec\<close>: a normal exit gives the captured output with code 0.  When
  \<^verbatim>\<open>execFile\<close> rejects, the code is the error's \<^verbatim>\<open>code\<close> when that is a number and 1
  otherwise; with \<^verbatim>\<open>allowFailure\<close> the call returns the output the error carries and
  that code, without it the call throws an \<^verbatim>\<open>Error\<close> whose message is the trimmed
  standard error, or a line naming the command and the code when that is empty.
\<close>

definition jailExec ::
  "'w tool \<Rightarrow> string \<Rightarrow> string list \<Rightarrow> jail_exec_opts option \<Rightarrow> 'w \<Rightarrow> (js_error + ExecResult) \<times> 'w" where
  "jailExec sys jailName command opts w =
     (case sys w (jailExec_command jailName command opts) of
        (Exited out err, w') \<Rightarrow> (Inr \<lparr>stdout = out, stderr = err, code = 0\<rparr>, w')
      | (Rejected e, w') \<Rightarrow>
          (let exit_code = (case e_code e of CodeNum n \<Rightarrow> n | _ \<Rightarrow> 1)
           in if (case opts of Some opt \<Rightarrow> allowFailure opt = Some True | None \<Rightarrow> False)
              then (Inr \<lparr>stdout = (case e_stdout e of Some x \<Rightarrow> x | None \<Rightarrow> []),
                         stderr = (case e_stderr e of Some x \<Rightarrow> x | None \<Rightarrow> []),
                         code = exit_code\<rparr>, w')
              else (let trimmed = trim (case e_stderr e of Some x \<Rightarrow> x | None \<Rightarrow> []);
                        msg = (if trimmed \<noteq> [] then trimmed
                               else ''jexec '' @ jailName @ '' '' @ join '' '' command
                                    @ '' failed (exit '' @ show_int exit_code @ '')'')
                    in (Inl (Error msg), w'))))"

text \<open>Whether the caller opted into tolerating failure, and the code read off an error.\<close>

definition tolerates_failure :: "jail_exec_opts option \<Rightarrow> bool" where
  "tolerates_failure opts = (case opts of Some opt \<Rightarrow> allowFailure opt = Some True | None \<Rightarrow> False)"

definition exit_code_of :: "exec_error \<Rightarrow> int" where
  "exit_code_of e = (case e_code e of CodeNum n \<Rightarrow> n | CodeStr s \<Rightarrow> 1 | CodeNone \<Rightarrow> 1)"

definition demo_opts :: jail_exec_opts where
  "demo_opts = \<lparr>allowFailure = Some True, opt_env = Some [(''LANG'', ''C'')], opt_uid = Some 1001,
                 opt_workdir = Some ''/work space'', timeoutMs = None\<rparr>"

definition exit_2 :: exec_error where
  "exit_2 = \<lparr>e_message = Some ''Command failed: jexec'', e_stdout = Some ''partial'',
              e_stderr = Some (''ls: nope: No such file or directory'' @ NL), e_code = CodeNum 2\<rparr>"


section \<open>The jail sandbox: \<^verbatim>\<open>run\<close> and its ZFS helpers\<close>

text \<open>
  \<^verbatim>\<open>run(bin, args, opts)\<close> of the jail sandbox: as \<^verbatim>\<open>jailExec\<close>, a rejected command is
  returned as data with \<^verbatim>\<open>allowFailure\<close> and thrown as an \<^verbatim>\<open>Error\<close> without it.
\<close>

definition run ::
  "'w tool \<Rightarrow> string \<Rightarrow> string list \<Rightarrow> bool \<Rightarrow> 'w \<Rightarrow> (js_error + ExecResult) \<times> 'w" where
  "run sys bin as allow_failure w =
     (case sys w \<lparr>c_bin = bin, c_args = as, c_timeout = 120000\<rparr> of
        (Exited out err, w') \<Rightarrow> (Inr \<lparr>stdout = out, stderr = err, code = 0\<rparr>, w')
      | (Rejected e, w') \<Rightarrow>
          (let exit_code = (case e_code e of CodeNum n \<Rightarrow> n | _ \<Rightarrow> 1)
           in if allow_failure
              then (Inr \<lparr>stdout = (case e_stdout e of Some x \<Rightarrow> x | None \<Rightarrow> []),
                         stderr = (case e_stderr e of Some x \<Rightarrow> x | None \<Rightarrow> []),
                         code = exit_code\<rparr>, w')
              else (let trimmed = trim (case e_stderr e of Some x \<Rightarrow> x | None \<Rightarrow> []);
                        msg = (if trimmed \<noteq> [] then trimmed
                               else bin @ '' '' @ join '' '' as
                                    @ '' failed (exit '' @ show_int exit_code @ '')'')
                    in (Inl (Error msg), w'))))"

definition snapshotPath :: "SandboxJailConfig \<Rightarrow> string" where
  "snapshotPath cfg = baseDataset cfg @ ''@'' @ baseSnapshot cfg"

definition cloneDataset :: "SandboxJailConfig \<Rightarrow> string \<Rightarrow> string" where
  "cloneDataset cfg jailName = cloneParent cfg @ ''/'' @ jailName"

definition cloneMountpoint :: "'w tool \<Rightarrow> string \<Rightarrow> 'w \<Rightarrow> (js_error + string) \<times> 'w" where
  "cloneMountpoint sys dataset w =
     (case run sys ''zfs'' [''get'', ''-H'', ''-o'', ''value'', ''mountpoint'', dataset] False w of
        (Inl e, w') \<Rightarrow> (Inl e, w')
      | (Inr r, w') \<Rightarrow> (Inr (trim (stdout r)), w'))"

definition zfsDatasetExists :: "'w tool \<Rightarrow> string \<Rightarrow> 'w \<Rightarrow> (js_error + bool) \<times> 'w" where
  "zfsDatasetExists sys dataset w =
     (case run sys ''zfs'' [''list'', ''-H'', ''-o'', ''name'', dataset] True w of
        (Inl e, w') \<Rightarrow> (Inl e, w')
      | (Inr r, w') \<Rightarrow> (Inr (code r = 0 \<and> trim (stdout r) = dataset), w'))"

definition zfsClone ::
  "'w tool \<Rightarrow> SandboxJailConfig \<Rightarrow> string \<Rightarrow> 'w \<Rightarrow> (js_error + string) \<times> 'w" where
  "zfsClone sys cfg jailName w =
     (let dataset = cloneDataset cfg jailName
      in case zfsDatasetExists sys dataset w of
           (Inl e, w1) \<Rightarrow> (Inl e, w1)
         | (Inr True, w1) \<Rightarrow> cloneMountpoint sys dataset w1
         | (Inr False, w1) \<Rightarrow>
             (let snap = snapshotPath cfg;
                  clone = (\<lambda>w3.
                    case run sys ''zfs'' [''clone'', snap, dataset] False w3 of
                      (Inl e, w4) \<Rightarrow> (Inl e, w4)
                    | (Inr r, w4) \<Rightarrow> cloneMountpoint sys dataset w4)
              in case zfsDatasetExists sys (cloneParent cfg) w1 of
                   (Inl e, w2) \<Rightarrow> (Inl e, w2)
                 | (Inr True, w2) \<Rightarrow> clone w2
                 | (Inr False, w2) \<Rightarrow>
                     (case run sys ''zfs'' [''create'', ''-p'', cloneParent cfg] False w2 of
                        (Inl e, w3) \<Rightarrow> (Inl e, w3)
                      | (Inr r, w3) \<Rightarrow> clone w3)))"

definition zfsDestroyClone ::
  "'w tool \<Rightarrow> SandboxJailConfig \<Rightarrow> string \<Rightarrow> 'w \<Rightarrow> (js_error + unit) \<times> 'w" where
  "zfsDestroyClone sys cfg jailName w =
     (let dataset = cloneDataset cfg jailName
      in case zfsDatasetExists sys dataset w of
           (Inl e, w1) \<Rightarrow> (Inl e, w1)
         | (Inr False, w1) \<Rightarrow> (Inr (), w1)
         | (Inr True, w1) \<Rightarrow>
             (case run sys ''zfs'' [''destroy'', ''-r'', dataset] True w1 of
                (Inl e, w2) \<Rightarrow> (Inl e, w2)
              | (Inr r, w2) \<Rightarrow> (Inr (), w2)))"

definition sandbox_cmd :: "string \<Rightarrow> string list \<Rightarrow> command" where
  "sandbox_cmd bin as = \<lparr>c_bin = bin, c_args = as, c_timeout = 120000\<rparr>"


section \<open>Properties of \<^verbatim>\<open>buildJailCreateArgs\<close>\<close>

lemmas trim_eval = trim_def is_space_def is_space2_def is_space3_def

text \<open>
  \<open>trim\<close> on white space of one, two and three bytes; the two bytes of U+00E0 end in
  \<open>A0\<close> and are kept.  A jail parameter that is a no-break space alone is dropped.
\<close>

lemma trim_examples:
  "trim ('' zroot'' @ NL) = ''zroot''"
  "trim [CHR 0xC2, CHR 0xA0] = []"
  "trim ([CHR 0xEF, CHR 0xBB, CHR 0xBF] @ ''a b'' @ [CHR 0xE2, CHR 0x80, CHR 0xA8]) = ''a b''"
  "trim [CHR 0xC3, CHR 0xA0] = [CHR 0xC3, CHR 0xA0]"
  by (simp_all add: trim_eval NL_def)

lemma push_params_no_break_space:
  "push_params args ([CHR 0xC2, CHR 0xA0] # ['' vnet '']) = args @ [''vnet'']"
  by (simp add: trim_eval push_def)

lemma push_params_filter:
  "push_params args ps = args @ filter (\<lambda>p. p \<noteq> []) (map trim ps)"
  by (induction ps arbitrary: args) (simp_all add: push_def)

lemma buildJailCreateArgs_shape:
  "buildJailCreateArgs jailName jailRoot cfg =
     [''-c'', ''name='' @ jailName, ''path='' @ jailRoot, ''persist'', ''host.hostname='' @ jailName]
     @ network_args cfg
     @ (if readOnlyRoot cfg then [''allow.mount=0'', ''enforce_statfs=2'']
        else [''allow.mount=1'', ''enforce_statfs=1''])
     @ [''children.max=0'', ''securelevel=3'']
     @ extra_params cfg"
  by (cases "network cfg")
     (simp_all add: buildJailCreateArgs_def network_args_def extra_params_def push_params_filter
        push_def push2_def Let_def)

text \<open>
  Claim C5.  For every jail name, root and configuration, the arguments generated for
  \<^verbatim>\<open>jail -c\<close> contain \<^verbatim>\<open>children.max=0\<close> immediately followed by
  \<^verbatim>\<open>securelevel=3\<close>: they stand right after the five leading arguments, the network
  arguments and the two mount-policy arguments, and only the raw extra parameters follow them.
\<close>

theorem buildJailCreateArgs_children_securelevel:
  "''children.max=0'' \<in> set (buildJailCreateArgs jailName jailRoot cfg)
   \<and> ''securelevel=3'' \<in> set (buildJailCreateArgs jailName jailRoot cfg)
   \<and> take 2 (drop (7 + length (network_args cfg)) (buildJailCreateArgs jailName jailRoot cfg))
       = [''children.max=0'', ''securelevel=3'']
   \<and> drop (9 + length (network_args cfg)) (buildJailCreateArgs jailName jailRoot cfg)
       = extra_params cfg"
  by (cases "network cfg") (simp_all add: buildJailCreateArgs_shape network_args_def)

text \<open>
  Claim C6.  For every jail name, root and configuration, the generated arguments name the
  jail \<^verbatim>\<open>name=<jailName>\<close> and set \<^verbatim>\<open>host.hostname=<jailName>\<close>: the host name
  inside the jail is the jail's name.
\<close>

theorem buildJailCreateArgs_hostname_is_name:
  "take 5 (buildJailCreateArgs jailName jailRoot cfg)
     = [''-c'', ''name='' @ jailName, ''path='' @ jailRoot, ''persist'',
        ''host.hostname='' @ jailName]
   \<and> buildJailCreateArgs jailName jailRoot cfg ! 1 = ''name='' @ jailName
   \<and> buildJailCreateArgs jailName jailRoot cfg ! 4 = ''host.hostname='' @ jailName"
  by (simp add: buildJailCreateArgs_shape)

text \<open>
  Claim C7.  For every jail name, root and configuration, the two arguments generated after
  the network arguments are the mount policy: \<^verbatim>\<open>allow.mount=0 enforce_statfs=2\<close> when
  \<^verbatim>\<open>readOnlyRoot\<close> is set, and \<^verbatim>\<open>allow.mount=1 enforce_statfs=1\<close> when it is not;
  the arguments generated before the raw extra parameters hold no other mount policy.
\<close>

theorem buildJailCreateArgs_mount_policy:
  "(readOnlyRoot cfg \<longrightarrow>
      take 2 (drop (5 + length (network_args cfg)) (buildJailCreateArgs jailName jailRoot cfg))
        = [''allow.mount=0'', ''enforce_statfs=2'']
      \<and> ''allow.mount=1'' \<notin> set (take (9 + length (network_args cfg))
                                   (buildJailCreateArgs jailName jailRoot cfg))
      \<and> ''enforce_statfs=1'' \<notin> set (take (9 + length (network_args cfg))
                                   (buildJailCreateArgs jailName jailRoot cfg)))
   \<and> (\<not> readOnlyRoot cfg \<longrightarrow>
      take 2 (drop (5 + length (network_args cfg)) (buildJailCreateArgs jailName jailRoot cfg))
        = [''allow.mount=1'', ''enforce_statfs=1'']
      \<and> ''allow.mount=0'' \<notin> set (take (9 + length (network_args cfg))
                                   (buildJailCreateArgs jailName jailRoot cfg))
      \<and> ''enforce_statfs=2'' \<notin> set (take (9 + length (network_args cfg))
                                   (buildJailCreateArgs jailName jailRoot cfg)))"
  by (cases "network cfg") (simp_all add: buildJailCreateArgs_shape network_args_def)


theorem buildJailCreateArgs_mount_policy_witness:
  "readOnlyRoot demo_cfg
   \<and> buildJailCreateArgs ''fc-abc'' ''/jails/fc-abc'' demo_cfg
       = [''-c'', ''name=fc-abc'', ''path=/jails/fc-abc'', ''persist'', ''host.hostname=fc-abc'',
          ''ip4=disable'', ''ip6=disable'', ''allow.mount=0'', ''enforce_statfs=2'',
          ''children.max=0'', ''securelevel=3'', ''allow.raw_sockets'']
   \<and> take 2 (drop 7 (buildJailCreateArgs ''fc-abc'' ''/jails/fc-abc'' demo_cfg))
       = [''allow.mount=0'', ''enforce_statfs=2'']
   \<and> \<not> readOnlyRoot (demo_cfg\<lparr>readOnlyRoot := False, network := Inherit\<rparr>)
   \<and> take 2 (drop 5 (buildJailCreateArgs ''fc-abc'' ''/jails/fc-abc''
                        (demo_cfg\<lparr>readOnlyRoot := False, network := Inherit\<rparr>)))
       = [''allow.mount=1'', ''enforce_statfs=1'']"
  using buildJailCreateArgs_mount_policy [of demo_cfg "''fc-abc''" "''/jails/fc-abc''"]
    buildJailCreateArgs_mount_policy
      [of "demo_cfg\<lparr>readOnlyRoot := False, network := Inherit\<rparr>" "''fc-abc''" "''/jails/fc-abc''"]
  by (simp add: demo_cfg_def network_args_def buildJailCreateArgs_shape extra_params_def
        trim_eval)


section \<open>Properties of \<^verbatim>\<open>generateJailFstab\<close>\<close>

lemma push_mounts_map:
  "push_mounts cfg lines ms = lines @ map (fstab_entry cfg) ms"
  by (induction ms arbitrary: lines) (simp_all add: push_def fstab_entry_def Let_def)

lemma join_terminated:
  "join sep (x # xs) @ sep = concat (map (\<lambda>l. l @ sep) (x # xs))"
  by (induction xs arbitrary: x) simp_all

text \<open>
  Claim C8.  For every jail configuration, the generated fstab is the comment line followed
  by exactly one line for each configured mount, in the order of the list, each line ended
  by a line feed and nothing else in the file.  The line of a mount is its \<^verbatim>\<open>src\<close>, the
  jail root directly followed by its \<^verbatim>\<open>dst\<close>, \<^verbatim>\<open>nullfs\<close>, the option, \<^verbatim>\<open>0\<close> and
  \<^verbatim>\<open>0\<close>, separated by tabs; the option is \<^verbatim>\<open>ro\<close> when the mount's
  \<^verbatim>\<open>readonly\<close> flag is set and \<^verbatim>\<open>rw\<close> when it is false or absent, whatever the
  flags of the other mounts.
\<close>

theorem generateJailFstab_entries:
  "generateJailFstab cfg =
     concat (map (\<lambda>l. l @ NL)
       (''# FreeClaw jail mount points'' # map (fstab_entry cfg) (configured_mounts cfg)))
   \<and> length (map (fstab_entry cfg) (configured_mounts cfg)) = length (configured_mounts cfg)
   \<and> fstab_entry cfg \<lparr>src = a, dst = b, readonly = Some True\<rparr>
       = a @ TAB @ rootDir cfg @ b @ TAB @ ''nullfs'' @ TAB @ ''ro'' @ TAB @ ''0'' @ TAB @ ''0''
   \<and> fstab_entry cfg \<lparr>src = a, dst = b, readonly = Some False\<rparr>
       = a @ TAB @ rootDir cfg @ b @ TAB @ ''nullfs'' @ TAB @ ''rw'' @ TAB @ ''0'' @ TAB @ ''0''
   \<and> fstab_entry cfg \<lparr>src = a, dst = b, readonly = None\<rparr>
       = a @ TAB @ rootDir cfg @ b @ TAB @ ''nullfs'' @ TAB @ ''rw'' @ TAB @ ''0'' @ TAB @ ''0''"
proof -
  have "generateJailFstab cfg =
     concat (map (\<lambda>l. l @ NL)
       (''# FreeClaw jail mount points'' # map (fstab_entry cfg) (configured_mounts cfg)))"
    unfolding generateJailFstab_def configured_mounts_def Let_def
    by (cases "mounts cfg") (simp_all add: push_mounts_map join_terminated del: join.simps)
  then show ?thesis
    by (simp add: fstab_entry_def)
qed


section \<open>The \<^verbatim>\<open>jail.conf\<close> stanza of \<^verbatim>\<open>generateJailConf\<close>\<close>

text \<open>
  The stanza written for a gateway jail is a different artefact from the arguments of
  \<^verbatim>\<open>jail -c\<close>: its host name is the configuration's \<^verbatim>\<open>hostname\<close> field, which
  \<^verbatim>\<open>resolveDefaultJailConfig\<close> sets to the name followed by \<^verbatim>\<open>.local\<close>; its security
  block always holds \<^verbatim>\<open>enforce_statfs = 2\<close> and \<^verbatim>\<open>children.max = 0\<close>, and it sets
  neither \<^verbatim>\<open>allow.mount\<close> nor \<^verbatim>\<open>securelevel\<close>.
\<close>

lemma jail_conf_lines_head:
  "take 3 (jail_conf_lines cfg)
     = [name cfg @ '' {'',
        ''    host.hostname = '' @ DQ @ hostname cfg @ DQ @ '';'',
        ''    path = '' @ DQ @ rootDir cfg @ DQ @ '';'']"
  by (simp add: jail_conf_lines_def conf_head_def)

lemma jail_conf_lines_security:
  "''    enforce_statfs = 2;'' \<in> set (jail_conf_lines cfg)
   \<and> ''    children.max = 0;'' \<in> set (jail_conf_lines cfg)"
proof -
  have "''    enforce_statfs = 2;'' \<in> set (conf_security cfg)"
    and "''    children.max = 0;'' \<in> set (conf_security cfg)"
    by (simp_all add: conf_security_def)
  then show ?thesis
    unfolding jail_conf_lines_def set_append by blast
qed

lemma resolveDefaultJailConfig_hostname:
  "hostname (resolveDefaultJailConfig path_join opts)
     = name (resolveDefaultJailConfig path_join opts) @ ''.local''"
  by (simp add: resolveDefaultJailConfig_def Let_def)
section \<open>Properties of the ZFS operations\<close>

lemma zfs_run:
  "zfs sys as s = (r, s') \<Longrightarrow>
     trace s' = trace s @ [(zfs_cmd as, r)] \<and> resolvedPoolCache s' = resolvedPoolCache s"
  by (auto simp: zfs_def run_tool_def split: prod.splits)

lemma datasetExists_run:
  "datasetExists sys d s = (b, s') \<Longrightarrow>
     \<exists>r. zfs sys [''list'', ''-H'', ''-o'', ''name'', d] s = (r, s') \<and> is_exited r = b"
  by (auto simp: datasetExists_def split: prod.splits outcome.splits)

lemma filter_Cons_nonempty: "filter (\<lambda>l. l \<noteq> []) xs = p # ps \<Longrightarrow> p \<noteq> []"
  by (metis (mono_tags, lifting) Cons_eq_filterD)

lemma resolveZfsPool_cache_set:
  assumes "resolveZfsPool sys s = (Inr pool, s1)"
  shows "resolvedPoolCache s1 = Some pool \<and> pool \<noteq> []"
  using assms
  by (auto simp: resolveZfsPool_def ZFS_poolName_def Let_def zpool_def run_tool_def
        split: option.splits list.splits prod.splits outcome.splits if_splits
        dest: filter_Cons_nonempty)

lemma resolveZfsPool_of_cache:
  "resolvedPoolCache s = Some pool \<Longrightarrow> pool \<noteq> [] \<Longrightarrow> resolveZfsPool sys s = (Inr pool, s)"
  by (cases pool) (simp_all add: resolveZfsPool_def)

lemma resolveZfsPool_cached:
  assumes "resolveZfsPool sys s = (Inr pool, s1)"
  shows "resolveZfsPool sys s1 = (Inr pool, s1)"
  using resolveZfsPool_cache_set [OF assms] by (simp add: resolveZfsPool_of_cache)

lemma resolveZfsPool_trace:
  assumes "resolveZfsPool sys s = (res, s1)"
  shows "trace s1 = trace s \<or>
         (\<exists>r. trace s1 = trace s @ [(zpool_cmd [''list'', ''-H'', ''-o'', ''name''], r)])"
  using assms
  by (auto simp: resolveZfsPool_def ZFS_poolName_def Let_def zpool_def run_tool_def
        split: option.splits list.splits prod.splits outcome.splits if_splits)

lemma resolveSandboxDatasetName_ok:
  "resolveZfsPool sys s = (Inr pool, s1) \<Longrightarrow>
   resolveSandboxDatasetName sys key s = (Inr (sandbox_dataset pool key), s1)"
  by (simp add: resolveSandboxDatasetName_def sandbox_dataset_def ZFS_parentDataset_def
        ZFS_sandboxesDir_def)

lemma resolveWorkspaceDatasetName_ok:
  "resolveZfsPool sys s = (Inr pool, s1) \<Longrightarrow>
   resolveWorkspaceDatasetName sys key s = (Inr (workspace_dataset pool key), s1)"
  by (simp add: resolveWorkspaceDatasetName_def workspace_dataset_def ZFS_parentDataset_def
        ZFS_workspacesDir_def)

lemma clone_step:
  "(case zfs sys as s of
      (Exited out err, s7) \<Rightarrow> (Inr ds, s7)
    | (Rejected e, s7) \<Rightarrow>
        (Inl (fail (ErrorObject e) (''Failed to clone for sandbox: '' @ ds)), s7))
   = (case zfs sys as s of (r, s7) \<Rightarrow> (clone_result ds r, s7))"
  by (simp add: clone_result_def split: prod.split outcome.split)

lemma cloneForSandbox_runs:
  assumes pool: "resolveZfsPool sys s = (Inr pool, s1)"
    and absent: "datasetExists sys (sandbox_dataset pool key) s1 = (False, s2)"
    and p1: "datasetExists sys (parent_of (sandbox_dataset pool key)) s2 = (pe, s3)"
    and c: "zfs sys [''create'', ''-p'', parent_of (sandbox_dataset pool key)] s3 = (rc, s4)"
    and p2: "datasetExists sys (parent_of (sandbox_dataset pool key)) s4 = (pe2, s5)"
  shows "cloneForSandbox sys key s =
      (if pe \<or> is_exited rc \<or> pe2
       then (case zfs sys [''clone'', base_snapshot pool, sandbox_dataset pool key]
                    (if pe then s3 else if is_exited rc then s4 else s5) of
               (r, s7) \<Rightarrow> (clone_result (sandbox_dataset pool key) r, s7))
       else (Inl \<lparr>z_error = ''Failed to create parent dataset: ''
                          @ parent_of (sandbox_dataset pool key),
                  z_code = CodeNone\<rparr>, s5))"
proof -
  have n: "resolveSandboxDatasetName sys key s1 = (Inr (sandbox_dataset pool key), s1)"
    using resolveZfsPool_cached [OF pool] by (rule resolveSandboxDatasetName_ok)
  have b: "pool @ ''/'' @ ZFS_baseJailDataset @ ''@'' @ BASE_SNAPSHOT_LABEL = base_snapshot pool"
    by (simp add: base_snapshot_def ZFS_baseJailDataset_def BASE_SNAPSHOT_LABEL_def)
  have p1': "datasetExists sys (substring0 (sandbox_dataset pool key)
                 (lastIndexOf (CHR ''/'') (sandbox_dataset pool key))) s2 = (pe, s3)"
    and c': "zfs sys [''create'', ''-p'', substring0 (sandbox_dataset pool key)
                 (lastIndexOf (CHR ''/'') (sandbox_dataset pool key))] s3 = (rc, s4)"
    and p2': "datasetExists sys (substring0 (sandbox_dataset pool key)
                 (lastIndexOf (CHR ''/'') (sandbox_dataset pool key))) s4 = (pe2, s5)"
    using p1 c p2 by (simp_all add: parent_of_def)
  show ?thesis
    unfolding cloneForSandbox_def pool n b Let_def prod.case sum.case absent bool.case
      clone_step p1'
    by (cases pe; cases rc; cases pe2) (simp_all add: c' p2' clone_step parent_of_def)
qed

lemma datasetExists_trace:
  "datasetExists sys d s = (b, s') \<Longrightarrow>
     \<exists>r. trace s' = trace s @ [(zfs_cmd [''list'', ''-H'', ''-o'', ''name'', d], r)] \<and> is_exited r = b"
  by (blast dest: datasetExists_run zfs_run)

lemma cloneForSandbox_present:
  assumes pool: "resolveZfsPool sys s = (Inr pool, s1)"
    and present: "datasetExists sys (sandbox_dataset pool key) s1 = (True, s2)"
  shows "cloneForSandbox sys key s = (Inr (sandbox_dataset pool key), s2)"
proof -
  have n: "resolveSandboxDatasetName sys key s1 = (Inr (sandbox_dataset pool key), s1)"
    using resolveZfsPool_cached [OF pool] by (rule resolveSandboxDatasetName_ok)
  show ?thesis
    unfolding cloneForSandbox_def pool n Let_def prod.case sum.case present bool.case ..
qed

lemma ensureSandboxDataset_runs:
  assumes pool: "resolveZfsPool sys s = (Inr pool, s1)"
    and check: "datasetExists sys (sandbox_dataset pool key) s1 = (b, s2)"
  shows "ensureSandboxDataset sys key s =
           (if b then (Inr (sandbox_dataset pool key), s2) else cloneForSandbox sys key s2)"
  unfolding ensureSandboxDataset_def resolveSandboxDatasetName_ok [OF pool] prod.case sum.case check
  by simp

lemma datasetExists_cache:
  "datasetExists sys d s = (b, s') \<Longrightarrow> resolvedPoolCache s' = resolvedPoolCache s"
  by (blast dest: datasetExists_run zfs_run)

lemma clone_result_Inr: "clone_result ds r = Inr v \<Longrightarrow> v = ds"
  by (cases r) (simp_all add: clone_result_def)

lemma cloneForSandbox_after:
  assumes pool: "resolveZfsPool sys s = (Inr pool, s1)"
    and run: "cloneForSandbox sys key s = (res, s')"
  shows "resolveZfsPool sys s' = (Inr pool, s')"
    and "res = Inr v \<Longrightarrow> v = sandbox_dataset pool key"
proof -
  define ds where "ds = sandbox_dataset pool key"
  obtain b s2 where e: "datasetExists sys ds s1 = (b, s2)" by force
  have c2: "resolvedPoolCache s2 = resolvedPoolCache s1" using e by (rule datasetExists_cache)
  have "resolvedPoolCache s' = resolvedPoolCache s1 \<and> (res = Inr v \<longrightarrow> v = ds)"
  proof (cases b)
    case True
    then have "cloneForSandbox sys key s = (Inr ds, s2)"
      using cloneForSandbox_present [OF pool] e unfolding ds_def by simp
    then show ?thesis using run c2 by auto
  next
    case False
    obtain pe s3 where p1: "datasetExists sys (parent_of ds) s2 = (pe, s3)" by force
    obtain rc s4 where c: "zfs sys [''create'', ''-p'', parent_of ds] s3 = (rc, s4)" by force
    obtain pe2 s5 where p2: "datasetExists sys (parent_of ds) s4 = (pe2, s5)" by force
    have c3: "resolvedPoolCache s3 = resolvedPoolCache s1"
      using datasetExists_cache [OF p1] c2 by simp
    have c4: "resolvedPoolCache s4 = resolvedPoolCache s1"
      using zfs_run [OF c] c3 by simp
    have c5: "resolvedPoolCache s5 = resolvedPoolCache s1"
      using datasetExists_cache [OF p2] c4 by simp
    define sx where "sx = (if pe then s3 else if is_exited rc then s4 else s5)"
    have cx: "resolvedPoolCache sx = resolvedPoolCache s1"
      using c3 c4 c5 by (simp add: sx_def)
    obtain rcl s7 where cl: "zfs sys [''clone'', base_snapshot pool, ds] sx = (rcl, s7)" by force
    have c7: "resolvedPoolCache s7 = resolvedPoolCache s1"
      using zfs_run [OF cl] cx by simp
    have u: "cloneForSandbox sys key s =
      (if pe \<or> is_exited rc \<or> pe2 then (clone_result ds rcl, s7)
       else (Inl \<lparr>z_error = ''Failed to create parent dataset: '' @ parent_of ds,
                  z_code = CodeNone\<rparr>, s5))"
      using cloneForSandbox_runs [OF pool, of key s2 pe s3 rc s4 pe2 s5] e False p1 c p2 cl
      by (simp add: ds_def [symmetric] sx_def [symmetric])
    show ?thesis
    proof (cases "pe \<or> is_exited rc \<or> pe2")
      case True
      then have "res = clone_result ds rcl" "s' = s7" using u run by simp_all
      then show ?thesis using c7 by (auto dest: clone_result_Inr)
    next
      case False
      then have "s' = s5" "\<exists>e. res = Inl e" using u run by simp_all
      then show ?thesis using c5 by auto
    qed
  qed
  then have k: "resolvedPoolCache s' = resolvedPoolCache s1" and v: "res = Inr v \<longrightarrow> v = ds"
    by simp_all
  show "resolveZfsPool sys s' = (Inr pool, s')"
    using resolveZfsPool_cache_set [OF pool] k by (simp add: resolveZfsPool_of_cache)
  show "res = Inr v \<Longrightarrow> v = sandbox_dataset pool key"
    using v by (simp add: ds_def)
qed

lemma cloneForSandbox_again:
  assumes pool: "resolveZfsPool sys s = (Inr pool, s1)"
    and run: "cloneForSandbox sys key s = (Inr v, s')"
    and still: "datasetExists sys v s' = (True, s'')"
  shows "cloneForSandbox sys key s' = (Inr v, s'')"
    and "ensureSandboxDataset sys key s' = (Inr v, s'')"
    and "\<exists>r. trace s'' = trace s' @ [(zfs_cmd [''list'', ''-H'', ''-o'', ''name'', v], r)]"
proof -
  have p': "resolveZfsPool sys s' = (Inr pool, s')" and v: "v = sandbox_dataset pool key"
    using cloneForSandbox_after [OF pool run] by simp_all
  show "cloneForSandbox sys key s' = (Inr v, s'')"
    using cloneForSandbox_present [OF p'] still v by simp
  show "ensureSandboxDataset sys key s' = (Inr v, s'')"
    using ensureSandboxDataset_runs [OF p', of key True s''] still v by simp
  show "\<exists>r. trace s'' = trace s' @ [(zfs_cmd [''list'', ''-H'', ''-o'', ''name'', v], r)]"
    using still by (blast dest: datasetExists_trace)
qed

lemma cloneForSandbox_parent_present:
  assumes pool: "resolveZfsPool sys s = (Inr pool, s1)"
    and absent: "datasetExists sys (sandbox_dataset pool key) s1 = (False, s2)"
    and p1: "datasetExists sys (parent_of (sandbox_dataset pool key)) s2 = (True, s3)"
    and cl: "zfs sys [''clone'', base_snapshot pool, sandbox_dataset pool key] s3 = (rcl, s')"
  shows "cloneForSandbox sys key s = (clone_result (sandbox_dataset pool key) rcl, s')"
    and "\<exists>rp. is_exited rp \<and> trace s' = trace s2 @
           [(zfs_cmd [''list'', ''-H'', ''-o'', ''name'', parent_of (sandbox_dataset pool key)], rp),
            (zfs_cmd [''clone'', base_snapshot pool, sandbox_dataset pool key], rcl)]"
proof -
  obtain rc s4 where c: "zfs sys [''create'', ''-p'', parent_of (sandbox_dataset pool key)] s3 = (rc, s4)"
    by force
  obtain pe2 s5 where p2: "datasetExists sys (parent_of (sandbox_dataset pool key)) s4 = (pe2, s5)"
    by force
  show "cloneForSandbox sys key s = (clone_result (sandbox_dataset pool key) rcl, s')"
    using cloneForSandbox_runs [OF pool absent p1 c p2] cl by simp
  show "\<exists>rp. is_exited rp \<and> trace s' = trace s2 @
           [(zfs_cmd [''list'', ''-H'', ''-o'', ''name'', parent_of (sandbox_dataset pool key)], rp),
            (zfs_cmd [''clone'', base_snapshot pool, sandbox_dataset pool key], rcl)]"
    using datasetExists_trace [OF p1] zfs_run [OF cl] by auto
qed

lemma cloneForSandbox_parent_created:
  assumes pool: "resolveZfsPool sys s = (Inr pool, s1)"
    and absent: "datasetExists sys (sandbox_dataset pool key) s1 = (False, s2)"
    and p1: "datasetExists sys (parent_of (sandbox_dataset pool key)) s2 = (False, s3)"
    and c: "zfs sys [''create'', ''-p'', parent_of (sandbox_dataset pool key)] s3 = (Exited out err, s4)"
    and cl: "zfs sys [''clone'', base_snapshot pool, sandbox_dataset pool key] s4 = (rcl, s')"
  shows "cloneForSandbox sys key s = (clone_result (sandbox_dataset pool key) rcl, s')"
    and "\<exists>rp. \<not> is_exited rp \<and> trace s' = trace s2 @
           [(zfs_cmd [''list'', ''-H'', ''-o'', ''name'', parent_of (sandbox_dataset pool key)], rp),
            (zfs_cmd [''create'', ''-p'', parent_of (sandbox_dataset pool key)], Exited out err),
            (zfs_cmd [''clone'', base_snapshot pool, sandbox_dataset pool key], rcl)]"
proof -
  obtain pe2 s5 where p2: "datasetExists sys (parent_of (sandbox_dataset pool key)) s4 = (pe2, s5)"
    by force
  show "cloneForSandbox sys key s = (clone_result (sandbox_dataset pool key) rcl, s')"
    using cloneForSandbox_runs [OF pool absent p1 c p2] cl by simp
  show "\<exists>rp. \<not> is_exited rp \<and> trace s' = trace s2 @
           [(zfs_cmd [''list'', ''-H'', ''-o'', ''name'', parent_of (sandbox_dataset pool key)], rp),
            (zfs_cmd [''create'', ''-p'', parent_of (sandbox_dataset pool key)], Exited out err),
            (zfs_cmd [''clone'', base_snapshot pool, sandbox_dataset pool key], rcl)]"
    using datasetExists_trace [OF p1] zfs_run [OF c] zfs_run [OF cl] by auto
qed

lemma cloneForSandbox_parent_raced:
  assumes pool: "resolveZfsPool sys s = (Inr pool, s1)"
    and absent: "datasetExists sys (sandbox_dataset pool key) s1 = (False, s2)"
    and p1: "datasetExists sys (parent_of (sandbox_dataset pool key)) s2 = (False, s3)"
    and c: "zfs sys [''create'', ''-p'', parent_of (sandbox_dataset pool key)] s3 = (Rejected e, s4)"
    and p2: "datasetExists sys (parent_of (sandbox_dataset pool key)) s4 = (True, s5)"
    and cl: "zfs sys [''clone'', base_snapshot pool, sandbox_dataset pool key] s5 = (rcl, s')"
  shows "cloneForSandbox sys key s = (clone_result (sandbox_dataset pool key) rcl, s')"
    and "\<exists>rp rp2. \<not> is_exited rp \<and> is_exited rp2 \<and> trace s' = trace s2 @
           [(zfs_cmd [''list'', ''-H'', ''-o'', ''name'', parent_of (sandbox_dataset pool key)], rp),
            (zfs_cmd [''create'', ''-p'', parent_of (sandbox_dataset pool key)], Rejected e),
            (zfs_cmd [''list'', ''-H'', ''-o'', ''name'', parent_of (sandbox_dataset pool key)], rp2),
            (zfs_cmd [''clone'', base_snapshot pool, sandbox_dataset pool key], rcl)]"
proof -
  show "cloneForSandbox sys key s = (clone_result (sandbox_dataset pool key) rcl, s')"
    using cloneForSandbox_runs [OF pool absent p1 c p2] cl by simp
  show "\<exists>rp rp2. \<not> is_exited rp \<and> is_exited rp2 \<and> trace s' = trace s2 @
           [(zfs_cmd [''list'', ''-H'', ''-o'', ''name'', parent_of (sandbox_dataset pool key)], rp),
            (zfs_cmd [''create'', ''-p'', parent_of (sandbox_dataset pool key)], Rejected e),
            (zfs_cmd [''list'', ''-H'', ''-o'', ''name'', parent_of (sandbox_dataset pool key)], rp2),
            (zfs_cmd [''clone'', base_snapshot pool, sandbox_dataset pool key], rcl)]"
    using datasetExists_trace [OF p1] zfs_run [OF c] datasetExists_trace [OF p2] zfs_run [OF cl]
    by auto
qed

lemma cloneForSandbox_parent_failed:
  assumes pool: "resolveZfsPool sys s = (Inr pool, s1)"
    and absent: "datasetExists sys (sandbox_dataset pool key) s1 = (False, s2)"
    and p1: "datasetExists sys (parent_of (sandbox_dataset pool key)) s2 = (False, s3)"
    and c: "zfs sys [''create'', ''-p'', parent_of (sandbox_dataset pool key)] s3 = (Rejected e, s4)"
    and p2: "datasetExists sys (parent_of (sandbox_dataset pool key)) s4 = (False, s5)"
  shows "cloneForSandbox sys key s =
           (Inl \<lparr>z_error = ''Failed to create parent dataset: ''
                     @ parent_of (sandbox_dataset pool key), z_code = CodeNone\<rparr>, s5)"
    and "\<exists>rp rp2. \<not> is_exited rp \<and> \<not> is_exited rp2 \<and> trace s5 = trace s2 @
           [(zfs_cmd [''list'', ''-H'', ''-o'', ''name'', parent_of (sandbox_dataset pool key)], rp),
            (zfs_cmd [''create'', ''-p'', parent_of (sandbox_dataset pool key)], Rejected e),
            (zfs_cmd [''list'', ''-H'', ''-o'', ''name'', parent_of (sandbox_dataset pool key)], rp2)]"
proof -
  show "cloneForSandbox sys key s =
           (Inl \<lparr>z_error = ''Failed to create parent dataset: ''
                     @ parent_of (sandbox_dataset pool key), z_code = CodeNone\<rparr>, s5)"
    using cloneForSandbox_runs [OF pool absent p1 c p2] by simp
  show "\<exists>rp rp2. \<not> is_exited rp \<and> \<not> is_exited rp2 \<and> trace s5 = trace s2 @
           [(zfs_cmd [''list'', ''-H'', ''-o'', ''name'', parent_of (sandbox_dataset pool key)], rp),
            (zfs_cmd [''create'', ''-p'', parent_of (sandbox_dataset pool key)], Rejected e),
            (zfs_cmd [''list'', ''-H'', ''-o'', ''name'', parent_of (sandbox_dataset pool key)], rp2)]"
    using datasetExists_trace [OF p1] zfs_run [OF c] datasetExists_trace [OF p2] by auto
qed

text \<open>
  Claim C1.  Let the pool be resolved (from the cache, or by one \<^verbatim>\<open>zpool list\<close>).  If the
  existence query for the sandbox dataset \<^verbatim>\<open><pool>/freeclaw/sandboxes/<key>\<close> succeeds,
  \<^verbatim>\<open>cloneForSandbox\<close> and \<^verbatim>\<open>ensureSandboxDataset\<close> return that dataset in the state
  the query left: the query is the only command given to the tool, and nothing is created,
  cloned or destroyed.  If the query fails, \<^verbatim>\<open>ensureSandboxDataset\<close> continues as
  \<^verbatim>\<open>cloneForSandbox\<close>, and \<^verbatim>\<open>cloneForSandbox\<close> queries the parent dataset and then
  \<^item> when the parent is found, gives the tool
    \<^verbatim>\<open>zfs clone <pool>/freeclaw/base-jail@freeclaw-base <dataset>\<close>;
  \<^item> when it is not, gives the tool \<^verbatim>\<open>zfs create -p <parent>\<close> and, when that succeeds,
    the clone command;
  \<^item> when the creation fails, queries the parent again and gives the tool the clone
    command when it is found;
  \<^item> when it is still not found, returns the error \<^verbatim>\<open>Failed to create parent dataset\<close>
    with no clone command.
  In the first three cases the result and the final state are those of the clone command
  run by the tool: the dataset when it succeeds, its error when it fails.  After a call that
  returned the dataset, a further call that finds the dataset returns it again and issues
  that one query only.
\<close>

theorem cloneForSandbox_idempotent:
  assumes pool: "resolveZfsPool sys s = (Inr pool, s1)"
  shows "(trace s1 = trace s \<or>
            (\<exists>r. trace s1 = trace s @ [(zpool_cmd [''list'', ''-H'', ''-o'', ''name''], r)]))
     \<and> (datasetExists sys (sandbox_dataset pool key) s1 = (True, s2) \<longrightarrow>
          cloneForSandbox sys key s = (Inr (sandbox_dataset pool key), s2)
          \<and> ensureSandboxDataset sys key s = (Inr (sandbox_dataset pool key), s2)
          \<and> (\<exists>r. trace s2 = trace s1 @
                 [(zfs_cmd [''list'', ''-H'', ''-o'', ''name'', sandbox_dataset pool key], r)]))
     \<and> (datasetExists sys (sandbox_dataset pool key) s1 = (False, s2) \<longrightarrow>
          ensureSandboxDataset sys key s = cloneForSandbox sys key s2)
     \<and> (datasetExists sys (sandbox_dataset pool key) s1 = (False, s2) \<longrightarrow>
          datasetExists sys (parent_of (sandbox_dataset pool key)) s2 = (True, s3) \<longrightarrow>
          zfs sys [''clone'', base_snapshot pool, sandbox_dataset pool key] s3 = (rcl, s') \<longrightarrow>
          cloneForSandbox sys key s = (clone_result (sandbox_dataset pool key) rcl, s')
          \<and> (\<exists>rp. is_exited rp \<and> trace s' = trace s2 @
           [(zfs_cmd [''list'', ''-H'', ''-o'', ''name'', parent_of (sandbox_dataset pool key)], rp),
            (zfs_cmd [''clone'', base_snapshot pool, sandbox_dataset pool key], rcl)]))
     \<and> (datasetExists sys (sandbox_dataset pool key) s1 = (False, s2) \<longrightarrow>
          datasetExists sys (parent_of (sandbox_dataset pool key)) s2 = (False, s3) \<longrightarrow>
          zfs sys [''create'', ''-p'', parent_of (sandbox_dataset pool key)] s3 = (Exited out err, s4) \<longrightarrow>
          zfs sys [''clone'', base_snapshot pool, sandbox_dataset pool key] s4 = (rcl, s') \<longrightarrow>
          cloneForSandbox sys key s = (clone_result (sandbox_dataset pool key) rcl, s')
          \<and> (\<exists>rp. \<not> is_exited rp \<and> trace s' = trace s2 @
           [(zfs_cmd [''list'', ''-H'', ''-o'', ''name'', parent_of (sandbox_dataset pool key)], rp),
            (zfs_cmd [''create'', ''-p'', parent_of (sandbox_dataset pool key)], Exited out err),
            (zfs_cmd [''clone'', base_snapshot pool, sandbox_dataset pool key], rcl)]))
     \<and> (datasetExists sys (sandbox_dataset pool key) s1 = (False, s2) \<longrightarrow>
          datasetExists sys (parent_of (sandbox_dataset pool key)) s2 = (False, s3) \<longrightarrow>
          zfs sys [''create'', ''-p'', parent_of (sandbox_dataset pool key)] s3 = (Rejected e, s4) \<longrightarrow>
          datasetExists sys (parent_of (sandbox_dataset pool key)) s4 = (True, s5) \<longrightarrow>
          zfs sys [''clone'', base_snapshot pool, sandbox_dataset pool key] s5 = (rcl, s') \<longrightarrow>
          cloneForSandbox sys key s = (clone_result (sandbox_dataset pool key) rcl, s')
          \<and> (\<exists>rp rp2. \<not> is_exited rp \<and> is_exited rp2 \<and> trace s' = trace s2 @
           [(zfs_cmd [''list'', ''-H'', ''-o'', ''name'', parent_of (sandbox_dataset pool key)], rp),
            (zfs_cmd [''create'', ''-p'', parent_of (sandbox_dataset pool key)], Rejected e),
            (zfs_cmd [''list'', ''-H'', ''-o'', ''name'', parent_of (sandbox_dataset pool key)], rp2),
            (zfs_cmd [''clone'', base_snapshot pool, sandbox_dataset pool key], rcl)]))
     \<and> (datasetExists sys (sandbox_dataset pool key) s1 = (False, s2) \<longrightarrow>
          datasetExists sys (parent_of (sandbox_dataset pool key)) s2 = (False, s3) \<longrightarrow>
          zfs sys [''create'', ''-p'', parent_of (sandbox_dataset pool key)] s3 = (Rejected e, s4) \<longrightarrow>
          datasetExists sys (parent_of (sandbox_dataset pool key)) s4 = (False, s5) \<longrightarrow>
          cloneForSandbox sys key s =
           (Inl \<lparr>z_error = ''Failed to create parent dataset: ''
                     @ parent_of (sandbox_dataset pool key), z_code = CodeNone\<rparr>, s5)
          \<and> (\<exists>rp rp2. \<not> is_exited rp \<and> \<not> is_exited rp2 \<and> trace s5 = trace s2 @
           [(zfs_cmd [''list'', ''-H'', ''-o'', ''name'', parent_of (sandbox_dataset pool key)], rp),
            (zfs_cmd [''create'', ''-p'', parent_of (sandbox_dataset pool key)], Rejected e),
            (zfs_cmd [''list'', ''-H'', ''-o'', ''name'', parent_of (sandbox_dataset pool key)], rp2)]))
     \<and> (cloneForSandbox sys key s = (Inr v, t1) \<longrightarrow>
          datasetExists sys v t1 = (True, t2) \<longrightarrow>
          cloneForSandbox sys key t1 = (Inr v, t2)
          \<and> ensureSandboxDataset sys key t1 = (Inr v, t2)
          \<and> (\<exists>r. trace t2 = trace t1 @ [(zfs_cmd [''list'', ''-H'', ''-o'', ''name'', v], r)]))"
proof (intro conjI impI)
  show "trace s1 = trace s \<or>
          (\<exists>r. trace s1 = trace s @ [(zpool_cmd [''list'', ''-H'', ''-o'', ''name''], r)])"
    using pool by (rule resolveZfsPool_trace)
next
  assume "datasetExists sys (sandbox_dataset pool key) s1 = (True, s2)"
  then show "cloneForSandbox sys key s = (Inr (sandbox_dataset pool key), s2)"
    by (rule cloneForSandbox_present [OF pool])
next
  assume h: "datasetExists sys (sandbox_dataset pool key) s1 = (True, s2)"
  show "ensureSandboxDataset sys key s = (Inr (sandbox_dataset pool key), s2)"
    using ensureSandboxDataset_runs [OF pool h] by simp
next
  assume "datasetExists sys (sandbox_dataset pool key) s1 = (True, s2)"
  then show "\<exists>r. trace s2 = trace s1 @
                 [(zfs_cmd [''list'', ''-H'', ''-o'', ''name'', sandbox_dataset pool key], r)]"
    by (blast dest: datasetExists_trace)
next
  assume h: "datasetExists sys (sandbox_dataset pool key) s1 = (False, s2)"
  show "ensureSandboxDataset sys key s = cloneForSandbox sys key s2"
    using ensureSandboxDataset_runs [OF pool h] by simp
next
  assume a: "datasetExists sys (sandbox_dataset pool key) s1 = (False, s2)"
    and b: "datasetExists sys (parent_of (sandbox_dataset pool key)) s2 = (True, s3)"
    and c: "zfs sys [''clone'', base_snapshot pool, sandbox_dataset pool key] s3 = (rcl, s')"
  show "cloneForSandbox sys key s = (clone_result (sandbox_dataset pool key) rcl, s')"
    using pool a b c by (rule cloneForSandbox_parent_present)
  show "\<exists>rp. is_exited rp \<and> trace s' = trace s2 @
           [(zfs_cmd [''list'', ''-H'', ''-o'', ''name'', parent_of (sandbox_dataset pool key)], rp),
            (zfs_cmd [''clone'', base_snapshot pool, sandbox_dataset pool key], rcl)]"
    using pool a b c by (rule cloneForSandbox_parent_present)
next
  assume a: "datasetExists sys (sandbox_dataset pool key) s1 = (False, s2)"
    and b: "datasetExists sys (parent_of (sandbox_dataset pool key)) s2 = (False, s3)"
    and c: "zfs sys [''create'', ''-p'', parent_of (sandbox_dataset pool key)] s3 = (Exited out err, s4)"
    and d: "zfs sys [''clone'', base_snapshot pool, sandbox_dataset pool key] s4 = (rcl, s')"
  show "cloneForSandbox sys key s = (clone_result (sandbox_dataset pool key) rcl, s')"
    using pool a b c d by (rule cloneForSandbox_parent_created)
  show "\<exists>rp. \<not> is_exited rp \<and> trace s' = trace s2 @
           [(zfs_cmd [''list'', ''-H'', ''-o'', ''name'', parent_of (sandbox_dataset pool key)], rp),
            (zfs_cmd [''create'', ''-p'', parent_of (sandbox_dataset pool key)], Exited out err),
            (zfs_cmd [''clone'', base_snapshot pool, sandbox_dataset pool key], rcl)]"
    using pool a b c d by (rule cloneForSandbox_parent_created)
next
  assume a: "datasetExists sys (sandbox_dataset pool key) s1 = (False, s2)"
    and b: "datasetExists sys (parent_of (sandbox_dataset pool key)) s2 = (False, s3)"
    and c: "zfs sys [''create'', ''-p'', parent_of (sandbox_dataset pool key)] s3 = (Rejected e, s4)"
    and d: "datasetExists sys (parent_of (sandbox_dataset pool key)) s4 = (True, s5)"
    and e: "zfs sys [''clone'', base_snapshot pool, sandbox_dataset pool key] s5 = (rcl, s')"
  show "cloneForSandbox sys key s = (clone_result (sandbox_dataset pool key) rcl, s')"
    using pool a b c d e by (rule cloneForSandbox_parent_raced)
  show "\<exists>rp rp2. \<not> is_exited rp \<and> is_exited rp2 \<and> trace s' = trace s2 @
           [(zfs_cmd [''list'', ''-H'', ''-o'', ''name'', parent_of (sandbox_dataset pool key)], rp),
            (zfs_cmd [''create'', ''-p'', parent_of (sandbox_dataset pool key)], Rejected e),
            (zfs_cmd [''list'', ''-H'', ''-o'', ''name'', parent_of (sandbox_dataset pool key)], rp2),
            (zfs_cmd [''clone'', base_snapshot pool, sandbox_dataset pool key], rcl)]"
    using pool a b c d e by (rule cloneForSandbox_parent_raced)
next
  assume a: "datasetExists sys (sandbox_dataset pool key) s1 = (False, s2)"
    and b: "datasetExists sys (parent_of (sandbox_dataset pool key)) s2 = (False, s3)"
    and c: "zfs sys [''create'', ''-p'', parent_of (sandbox_dataset pool key)] s3 = (Rejected e, s4)"
    and d: "datasetExists sys (parent_of (sandbox_dataset pool key)) s4 = (False, s5)"
  show "cloneForSandbox sys key s =
           (Inl \<lparr>z_error = ''Failed to create parent dataset: ''
                     @ parent_of (sandbox_dataset pool key), z_code = CodeNone\<rparr>, s5)"
    using pool a b c d by (rule cloneForSandbox_parent_failed)
  show "\<exists>rp rp2. \<not> is_exited rp \<and> \<not> is_exited rp2 \<and> trace s5 = trace s2 @
           [(zfs_cmd [''list'', ''-H'', ''-o'', ''name'', parent_of (sandbox_dataset pool key)], rp),
            (zfs_cmd [''create'', ''-p'', parent_of (sandbox_dataset pool key)], Rejected e),
            (zfs_cmd [''list'', ''-H'', ''-o'', ''name'', parent_of (sandbox_dataset pool key)], rp2)]"
    using pool a b c d by (rule cloneForSandbox_parent_failed)
next
  assume r: "cloneForSandbox sys key s = (Inr v, t1)"
    and e: "datasetExists sys v t1 = (True, t2)"
  show "cloneForSandbox sys key t1 = (Inr v, t2)"
    using pool r e by (rule cloneForSandbox_again)
  show "ensureSandboxDataset sys key t1 = (Inr v, t2)"
    using pool r e by (rule cloneForSandbox_again)
  show "\<exists>r. trace t2 = trace t1 @ [(zfs_cmd [''list'', ''-H'', ''-o'', ''name'', v], r)]"
    using pool r e by (rule cloneForSandbox_again)
qed

lemma destroySandboxDataset_after:
  assumes pool: "resolveZfsPool sys s = (Inr pool, s1)"
    and run: "destroySandboxDataset sys key s = (res, s')"
  shows "resolveZfsPool sys s' = (Inr pool, s')"
proof -
  define ds where "ds = sandbox_dataset pool key"
  obtain b s2 where e: "datasetExists sys ds s1 = (b, s2)" by force
  obtain rd s3 where d: "zfs sys [''destroy'', ''-r'', ds] s2 = (rd, s3)" by force
  have c2: "resolvedPoolCache s2 = resolvedPoolCache s1" using e by (rule datasetExists_cache)
  have c3: "resolvedPoolCache s3 = resolvedPoolCache s1" using zfs_run [OF d] c2 by simp
  have "s' = (if b then s3 else s2)"
    using run e d
    unfolding destroySandboxDataset_def resolveSandboxDatasetName_ok [OF pool] prod.case sum.case
      ds_def [symmetric]
    by (cases b; cases rd) simp_all
  then have "resolvedPoolCache s' = resolvedPoolCache s1" using c2 c3 by simp
  then show ?thesis
    using resolveZfsPool_cache_set [OF pool] by (simp add: resolveZfsPool_of_cache)
qed

lemma destroySandboxDataset_absent:
  assumes pool: "resolveZfsPool sys s = (Inr pool, s1)"
    and h: "datasetExists sys (sandbox_dataset pool key) s1 = (False, s2)"
  shows "destroySandboxDataset sys key s = (Inr (), s2)"
  unfolding destroySandboxDataset_def resolveSandboxDatasetName_ok [OF pool] prod.case sum.case h
  by simp

text \<open>
  Claim C2.  Let the pool be resolved.  If the existence query for the sandbox dataset
  fails, \<^verbatim>\<open>destroySandboxDataset\<close> succeeds and the query is the only command issued:
  no destroy command is invoked.  If the query succeeds, the one further command is
  \<^verbatim>\<open>zfs destroy -r <dataset>\<close>, the recursive destroy that takes the descendant
  snapshots and datasets with it, and the call succeeds exactly when that command does.
  After a call that succeeded, a further call that finds the dataset absent succeeds with
  that one query only.
\<close>

theorem destroySandboxDataset_idempotent:
  assumes pool: "resolveZfsPool sys s = (Inr pool, s1)"
  shows "(datasetExists sys (sandbox_dataset pool key) s1 = (False, s2) \<longrightarrow>
            destroySandboxDataset sys key s = (Inr (), s2)
            \<and> (\<exists>r. trace s2 = trace s1 @
                  [(zfs_cmd [''list'', ''-H'', ''-o'', ''name'', sandbox_dataset pool key], r)]))
       \<and> (datasetExists sys (sandbox_dataset pool key) s1 = (True, s2) \<longrightarrow>
          zfs sys [''destroy'', ''-r'', sandbox_dataset pool key] s2 = (rd, s3) \<longrightarrow>
            destroySandboxDataset sys key s = (destroy_result (sandbox_dataset pool key) rd, s3)
            \<and> (\<exists>r. trace s3 = trace s1 @
                  [(zfs_cmd [''list'', ''-H'', ''-o'', ''name'', sandbox_dataset pool key], r),
                   (zfs_cmd [''destroy'', ''-r'', sandbox_dataset pool key], rd)]))
       \<and> (destroySandboxDataset sys key s = (Inr (), t1) \<longrightarrow>
          datasetExists sys (sandbox_dataset pool key) t1 = (False, t2) \<longrightarrow>
            destroySandboxDataset sys key t1 = (Inr (), t2)
            \<and> (\<exists>r. trace t2 = trace t1 @
                  [(zfs_cmd [''list'', ''-H'', ''-o'', ''name'', sandbox_dataset pool key], r)]))"
proof (intro conjI impI)
  assume h: "datasetExists sys (sandbox_dataset pool key) s1 = (False, s2)"
  show "destroySandboxDataset sys key s = (Inr (), s2)"
    unfolding destroySandboxDataset_def resolveSandboxDatasetName_ok [OF pool] prod.case sum.case h
    by simp
  show "\<exists>r. trace s2 = trace s1 @
          [(zfs_cmd [''list'', ''-H'', ''-o'', ''name'', sandbox_dataset pool key], r)]"
    using h by (blast dest: datasetExists_trace)
next
  assume h: "datasetExists sys (sandbox_dataset pool key) s1 = (True, s2)"
    and d: "zfs sys [''destroy'', ''-r'', sandbox_dataset pool key] s2 = (rd, s3)"
  show "destroySandboxDataset sys key s = (destroy_result (sandbox_dataset pool key) rd, s3)"
    unfolding destroySandboxDataset_def resolveSandboxDatasetName_ok [OF pool] prod.case sum.case h
    by (cases rd) (simp_all add: d destroy_result_def)
  show "\<exists>r. trace s3 = trace s1 @
          [(zfs_cmd [''list'', ''-H'', ''-o'', ''name'', sandbox_dataset pool key], r),
           (zfs_cmd [''destroy'', ''-r'', sandbox_dataset pool key], rd)]"
    using datasetExists_trace [OF h] zfs_run [OF d] by auto
next
  assume r: "destroySandboxDataset sys key s = (Inr (), t1)"
    and h: "datasetExists sys (sandbox_dataset pool key) t1 = (False, t2)"
  have p': "resolveZfsPool sys t1 = (Inr pool, t1)"
    using pool r by (rule destroySandboxDataset_after)
  show "destroySandboxDataset sys key t1 = (Inr (), t2)"
    using p' h by (rule destroySandboxDataset_absent)
  show "\<exists>r. trace t2 = trace t1 @
          [(zfs_cmd [''list'', ''-H'', ''-o'', ''name'', sandbox_dataset pool key], r)]"
    using h by (blast dest: datasetExists_trace)
qed

lemma ensureWorkspaceDataset_runs:
  assumes pool: "resolveZfsPool sys s = (Inr pool, s1)"
    and absent: "datasetExists sys (workspace_dataset pool agentId) s1 = (False, s2)"
    and c: "zfs sys [''create'', ''-p'', ''-o'', ''compression=lz4'', workspace_dataset pool agentId] s2
              = (rc, s3)"
    and recheck: "datasetExists sys (workspace_dataset pool agentId) s3 = (b, s4)"
  shows "ensureWorkspaceDataset sys agentId s =
     (case rc of
        Exited out err \<Rightarrow> (Inr (workspace_dataset pool agentId), s3)
      | Rejected e \<Rightarrow>
          (if b then Inr (workspace_dataset pool agentId)
           else Inl (fail (ErrorObject e)
                  (''Failed to create workspace dataset: '' @ workspace_dataset pool agentId)), s4))"
proof -
  have a: "push (if ZFS_compression \<noteq> []
                 then push2 [''create'', ''-p''] ''-o'' (''compression='' @ ZFS_compression)
                 else [''create'', ''-p'']) (workspace_dataset pool agentId)
           = [''create'', ''-p'', ''-o'', ''compression=lz4'', workspace_dataset pool agentId]"
    by (simp add: ZFS_compression_def push_def push2_def)
  show ?thesis
    unfolding ensureWorkspaceDataset_def resolveWorkspaceDatasetName_ok [OF pool] prod.case
      sum.case absent bool.case Let_def a c
    by (cases rc; cases b) (simp_all add: recheck)
qed

text \<open>
  Claim C3.  Let the pool be resolved and the dataset be found absent.  In
  \<^verbatim>\<open>ensureWorkspaceDataset\<close>, when \<^verbatim>\<open>zfs create -p -o compression=lz4\<close> fails, the
  dataset is queried again: the call returns the dataset when the second query finds it,
  and the error of the failed creation only when it does not.  In \<^verbatim>\<open>cloneForSandbox\<close>,
  when the parent is absent and \<^verbatim>\<open>zfs create -p\<close> of the parent fails, the parent is
  queried again: the call goes on to the clone when the second query finds the parent, and
  returns the error \<^verbatim>\<open>Failed to create parent dataset\<close> only when it does not.
\<close>

theorem create_race_recovered:
  assumes pool: "resolveZfsPool sys s = (Inr pool, s1)"
  shows "(datasetExists sys (workspace_dataset pool agentId) s1 = (False, s2) \<longrightarrow>
          zfs sys [''create'', ''-p'', ''-o'', ''compression=lz4'', workspace_dataset pool agentId] s2
            = (Rejected e, s3) \<longrightarrow>
          datasetExists sys (workspace_dataset pool agentId) s3 = (b, s4) \<longrightarrow>
            ensureWorkspaceDataset sys agentId s =
              (if b then Inr (workspace_dataset pool agentId)
               else Inl (fail (ErrorObject e)
                  (''Failed to create workspace dataset: '' @ workspace_dataset pool agentId)), s4))
       \<and> (datasetExists sys (sandbox_dataset pool key) s1 = (False, t2) \<longrightarrow>
          datasetExists sys (parent_of (sandbox_dataset pool key)) t2 = (False, t3) \<longrightarrow>
          zfs sys [''create'', ''-p'', parent_of (sandbox_dataset pool key)] t3 = (Rejected e', t4) \<longrightarrow>
          datasetExists sys (parent_of (sandbox_dataset pool key)) t4 = (b', t5) \<longrightarrow>
            cloneForSandbox sys key s =
              (if b'
               then (case zfs sys [''clone'', base_snapshot pool, sandbox_dataset pool key] t5 of
                       (r, t6) \<Rightarrow> (clone_result (sandbox_dataset pool key) r, t6))
               else (Inl \<lparr>z_error = ''Failed to create parent dataset: ''
                                @ parent_of (sandbox_dataset pool key),
                          z_code = CodeNone\<rparr>, t5)))"
proof (intro conjI impI)
  assume "datasetExists sys (workspace_dataset pool agentId) s1 = (False, s2)"
    and "zfs sys [''create'', ''-p'', ''-o'', ''compression=lz4'', workspace_dataset pool agentId] s2
            = (Rejected e, s3)"
    and "datasetExists sys (workspace_dataset pool agentId) s3 = (b, s4)"
  then show "ensureWorkspaceDataset sys agentId s =
              (if b then Inr (workspace_dataset pool agentId)
               else Inl (fail (ErrorObject e)
                  (''Failed to create workspace dataset: '' @ workspace_dataset pool agentId)), s4)"
    using ensureWorkspaceDataset_runs [OF pool, of agentId s2 "Rejected e" s3 b s4] by simp
next
  assume "datasetExists sys (sandbox_dataset pool key) s1 = (False, t2)"
    and "datasetExists sys (parent_of (sandbox_dataset pool key)) t2 = (False, t3)"
    and "zfs sys [''create'', ''-p'', parent_of (sandbox_dataset pool key)] t3 = (Rejected e', t4)"
    and "datasetExists sys (parent_of (sandbox_dataset pool key)) t4 = (b', t5)"
  then show "cloneForSandbox sys key s =
              (if b'
               then (case zfs sys [''clone'', base_snapshot pool, sandbox_dataset pool key] t5 of
                       (r, t6) \<Rightarrow> (clone_result (sandbox_dataset pool key) r, t6))
               else (Inl \<lparr>z_error = ''Failed to create parent dataset: ''
                                @ parent_of (sandbox_dataset pool key),
                          z_code = CodeNone\<rparr>, t5))"
    using cloneForSandbox_runs [OF pool, of key t2 False t3 "Rejected e'" t4 b' t5] by simp
qed

lemma zfs_world:
  "zfs sys as s = (r, s') \<Longrightarrow>
     r = fst (sys (world s) (zfs_cmd as)) \<and> world s' = snd (sys (world s) (zfs_cmd as))"
  by (auto simp: zfs_def run_tool_def split: prod.splits)

lemma createBaseSnapshot_runs:
  assumes pool: "resolveZfsPool sys s = (Inr pool, s1)"
    and l: "zfs sys [''list'', ''-H'', ''-t'', ''snapshot'', base_snapshot pool] s1 = (rl, s2)"
    and d: "zfs sys [''destroy'', base_snapshot pool] s2 = (rd, s3)"
    and c: "zfs sys [''snapshot'', base_snapshot pool] (if is_exited rl then s3 else s2) = (rs, s4)"
  shows "createBaseSnapshot sys s =
     (if is_exited rl \<and> \<not> is_exited rd then (Inr (base_snapshot pool), s3)
      else (snapshot_result (base_snapshot pool) rs, s4))"
proof -
  have b: "(pool @ ''/'' @ ZFS_baseJailDataset) @ ''@'' @ BASE_SNAPSHOT_LABEL = base_snapshot pool"
    by (simp add: base_snapshot_def ZFS_baseJailDataset_def BASE_SNAPSHOT_LABEL_def)
  show ?thesis
    unfolding createBaseSnapshot_def pool prod.case sum.case Let_def b l
    using c by (cases rl; cases rd; cases rs) (simp_all add: d snapshot_result_def)
qed

text \<open>
  Claim C10.  Let the pool be resolved.  When the base snapshot is listed and its destroy
  fails (clones depend on it), \<^verbatim>\<open>createBaseSnapshot\<close> returns the snapshot's name with
  no error and issues no \<^verbatim>\<open>zfs snapshot\<close>.  A fresh snapshot is created only when the
  snapshot is not listed, or was destroyed; the call then succeeds exactly when
  \<^verbatim>\<open>zfs snapshot\<close> does.  For a tool where listing does not change whether the snapshot
  is listed, a failed destroy does not either, and a successful \<^verbatim>\<open>zfs snapshot\<close> leaves
  it listed, the base snapshot is listed after every successful call.
\<close>

theorem createBaseSnapshot_safe:
  assumes pool: "resolveZfsPool sys s = (Inr pool, s1)"
  shows "(zfs sys [''list'', ''-H'', ''-t'', ''snapshot'', base_snapshot pool] s1 = (Exited o1 e1, s2) \<longrightarrow>
          zfs sys [''destroy'', base_snapshot pool] s2 = (Rejected e, s3) \<longrightarrow>
            createBaseSnapshot sys s = (Inr (base_snapshot pool), s3)
            \<and> trace s3 = trace s1 @
                [(zfs_cmd [''list'', ''-H'', ''-t'', ''snapshot'', base_snapshot pool], Exited o1 e1),
                 (zfs_cmd [''destroy'', base_snapshot pool], Rejected e)])
       \<and> (zfs sys [''list'', ''-H'', ''-t'', ''snapshot'', base_snapshot pool] s1 = (Exited o1 e1, s2) \<longrightarrow>
          zfs sys [''destroy'', base_snapshot pool] s2 = (Exited o2 e2, s3) \<longrightarrow>
          zfs sys [''snapshot'', base_snapshot pool] s3 = (rs, s4) \<longrightarrow>
            createBaseSnapshot sys s = (snapshot_result (base_snapshot pool) rs, s4)
            \<and> trace s4 = trace s1 @
                [(zfs_cmd [''list'', ''-H'', ''-t'', ''snapshot'', base_snapshot pool], Exited o1 e1),
                 (zfs_cmd [''destroy'', base_snapshot pool], Exited o2 e2),
                 (zfs_cmd [''snapshot'', base_snapshot pool], rs)])
       \<and> (zfs sys [''list'', ''-H'', ''-t'', ''snapshot'', base_snapshot pool] s1 = (Rejected e, s2) \<longrightarrow>
          zfs sys [''snapshot'', base_snapshot pool] s2 = (rs, s4) \<longrightarrow>
            createBaseSnapshot sys s = (snapshot_result (base_snapshot pool) rs, s4)
            \<and> trace s4 = trace s1 @
                [(zfs_cmd [''list'', ''-H'', ''-t'', ''snapshot'', base_snapshot pool], Rejected e),
                 (zfs_cmd [''snapshot'', base_snapshot pool], rs)])
       \<and> (snapshot_contract sys (base_snapshot pool) \<longrightarrow>
          createBaseSnapshot sys s = (Inr v, s') \<longrightarrow>
            v = base_snapshot pool \<and> snapshot_listed sys (world s') (base_snapshot pool))"
proof (intro conjI impI)
  assume l: "zfs sys [''list'', ''-H'', ''-t'', ''snapshot'', base_snapshot pool] s1 = (Exited o1 e1, s2)"
    and d: "zfs sys [''destroy'', base_snapshot pool] s2 = (Rejected e, s3)"
  obtain rs s4 where c: "zfs sys [''snapshot'', base_snapshot pool]
        (if is_exited (Exited o1 e1) then s3 else s2) = (rs, s4)" by force
  show "createBaseSnapshot sys s = (Inr (base_snapshot pool), s3)"
    using createBaseSnapshot_runs [OF pool l d c] by simp
  show "trace s3 = trace s1 @
                [(zfs_cmd [''list'', ''-H'', ''-t'', ''snapshot'', base_snapshot pool], Exited o1 e1),
                 (zfs_cmd [''destroy'', base_snapshot pool], Rejected e)]"
    using zfs_run [OF l] zfs_run [OF d] by simp
next
  assume l: "zfs sys [''list'', ''-H'', ''-t'', ''snapshot'', base_snapshot pool] s1 = (Exited o1 e1, s2)"
    and d: "zfs sys [''destroy'', base_snapshot pool] s2 = (Exited o2 e2, s3)"
    and c: "zfs sys [''snapshot'', base_snapshot pool] s3 = (rs, s4)"
  show "createBaseSnapshot sys s = (snapshot_result (base_snapshot pool) rs, s4)"
    using createBaseSnapshot_runs [OF pool l d, of rs s4] c by simp
  show "trace s4 = trace s1 @
                [(zfs_cmd [''list'', ''-H'', ''-t'', ''snapshot'', base_snapshot pool], Exited o1 e1),
                 (zfs_cmd [''destroy'', base_snapshot pool], Exited o2 e2),
                 (zfs_cmd [''snapshot'', base_snapshot pool], rs)]"
    using zfs_run [OF l] zfs_run [OF d] zfs_run [OF c] by simp
next
  assume l: "zfs sys [''list'', ''-H'', ''-t'', ''snapshot'', base_snapshot pool] s1 = (Rejected e, s2)"
    and c: "zfs sys [''snapshot'', base_snapshot pool] s2 = (rs, s4)"
  obtain rd s3 where d: "zfs sys [''destroy'', base_snapshot pool] s2 = (rd, s3)" by force
  show "createBaseSnapshot sys s = (snapshot_result (base_snapshot pool) rs, s4)"
    using createBaseSnapshot_runs [OF pool l d, of rs s4] c by simp
  show "trace s4 = trace s1 @
                [(zfs_cmd [''list'', ''-H'', ''-t'', ''snapshot'', base_snapshot pool], Rejected e),
                 (zfs_cmd [''snapshot'', base_snapshot pool], rs)]"
    using zfs_run [OF l] zfs_run [OF c] by simp
next
  assume k: "snapshot_contract sys (base_snapshot pool)"
    and run: "createBaseSnapshot sys s = (Inr v, s')"
  obtain rl s2 where l: "zfs sys [''list'', ''-H'', ''-t'', ''snapshot'', base_snapshot pool] s1 = (rl, s2)"
    by force
  obtain rd s3 where d: "zfs sys [''destroy'', base_snapshot pool] s2 = (rd, s3)" by force
  obtain rs s4 where c: "zfs sys [''snapshot'', base_snapshot pool]
        (if is_exited rl then s3 else s2) = (rs, s4)" by force
  note u = createBaseSnapshot_runs [OF pool l d c]
  have v: "v = base_snapshot pool \<and> snapshot_listed sys (world s') (base_snapshot pool)"
  proof (cases "is_exited rl \<and> \<not> is_exited rd")
    case True
    then have "v = base_snapshot pool" "s' = s3" using u run by simp_all
    moreover have "snapshot_listed sys (world s1) (base_snapshot pool)"
      using True zfs_world [OF l] by (simp add: snapshot_listed_def)
    then have "snapshot_listed sys (world s2) (base_snapshot pool)"
      using k zfs_world [OF l] by (simp add: snapshot_contract_def)
    then have "snapshot_listed sys (world s3) (base_snapshot pool)"
      using k True zfs_world [OF d] by (simp add: snapshot_contract_def)
    ultimately show ?thesis by simp
  next
    case False
    then have r: "snapshot_result (base_snapshot pool) rs = Inr v" "s' = s4" using u run by auto
    then have "is_exited rs" "v = base_snapshot pool"
      by (cases rs; simp add: snapshot_result_def)+
    then show ?thesis
      using k zfs_world [OF c] r(2) by (simp add: snapshot_contract_def)
  qed
  show "v = base_snapshot pool" using v ..
  show "snapshot_listed sys (world s') (base_snapshot pool)" using v ..
qed


section \<open>The ZFS operations on example runs\<close>

lemma scripted_pool:
  "resolveZfsPool scripted (initial_state (zroot_listing # script)) = (Inr ''zroot'', pooled script)"
  by (simp add: resolveZfsPool_def initial_state_def ZFS_poolName_def zpool_def run_tool_def
        zroot_listing_def pooled_def NL_def trim_eval Let_def)

lemma scripted_zfs:
  "zfs scripted as s = (case world s of [] \<Rightarrow> no_answer | r # rs \<Rightarrow> r, answered s as)"
  by (simp add: zfs_def run_tool_def answered_def split: list.split)

lemma scripted_exists:
  "datasetExists scripted d s =
     (case world s of [] \<Rightarrow> False | r # rs \<Rightarrow> is_exited r,
      answered s [''list'', ''-H'', ''-o'', ''name'', d])"
  by (cases "world s"; simp add: datasetExists_def scripted_zfs no_answer_def split: outcome.split)

lemma answered_world:
  "world (answered s as) = tl (world s)"
  by (simp add: answered_def split: list.split)

lemma pooled_world: "world (pooled w) = w"
  by (simp add: pooled_def)

lemma snap_sim_pool:
  "resolveZfsPool snap_sim (initial_state w) = (Inr ''zroot'', pooled w)"
  by (cases w)
     (simp add: resolveZfsPool_def initial_state_def ZFS_poolName_def zpool_def run_tool_def
        zpool_cmd_def snap_sim_def zroot_listing_def pooled_def NL_def trim_eval Let_def)

lemma snap_sim_contract: "snapshot_contract snap_sim snapshot"
  by (simp add: snapshot_contract_def snapshot_listed_def snap_sim_def zfs_cmd_def done_ok_def
        split: prod.split)

theorem cloneForSandbox_idempotent_witness:
  "resolveZfsPool scripted (initial_state [zroot_listing, done_ok, done_ok])
     = (Inr ''zroot'', pooled [done_ok, done_ok])
   \<and> datasetExists scripted (sandbox_dataset ''zroot'' ''k1'') (pooled [done_ok, done_ok])
     = (True, answered (pooled [done_ok, done_ok])
                [''list'', ''-H'', ''-o'', ''name'', ''zroot/freeclaw/sandboxes/k1''])
   \<and> cloneForSandbox scripted ''k1'' (initial_state [zroot_listing, done_ok, done_ok])
     = (Inr ''zroot/freeclaw/sandboxes/k1'',
        answered (pooled [done_ok, done_ok])
          [''list'', ''-H'', ''-o'', ''name'', ''zroot/freeclaw/sandboxes/k1''])
   \<and> cloneForSandbox scripted ''k1''
        (answered (pooled [done_ok, done_ok])
          [''list'', ''-H'', ''-o'', ''name'', ''zroot/freeclaw/sandboxes/k1''])
     = (Inr ''zroot/freeclaw/sandboxes/k1'',
        answered (answered (pooled [done_ok, done_ok])
          [''list'', ''-H'', ''-o'', ''name'', ''zroot/freeclaw/sandboxes/k1''])
          [''list'', ''-H'', ''-o'', ''name'', ''zroot/freeclaw/sandboxes/k1''])
   \<and> cloneForSandbox scripted ''k1'' (initial_state [zroot_listing, Rejected refused, done_ok, done_ok])
     = (Inr ''zroot/freeclaw/sandboxes/k1'',
        answered (answered (answered (pooled [Rejected refused, done_ok, done_ok])
          [''list'', ''-H'', ''-o'', ''name'', ''zroot/freeclaw/sandboxes/k1''])
          [''list'', ''-H'', ''-o'', ''name'', ''zroot/freeclaw/sandboxes''])
          [''clone'', ''zroot/freeclaw/base-jail@freeclaw-base'', ''zroot/freeclaw/sandboxes/k1''])
   \<and> cloneForSandbox scripted ''k1''
        (initial_state [zroot_listing, Rejected refused, Rejected refused, done_ok, done_ok])
     = (Inr ''zroot/freeclaw/sandboxes/k1'',
        answered (answered (answered (answered
          (pooled [Rejected refused, Rejected refused, done_ok, done_ok])
          [''list'', ''-H'', ''-o'', ''name'', ''zroot/freeclaw/sandboxes/k1''])
          [''list'', ''-H'', ''-o'', ''name'', ''zroot/freeclaw/sandboxes''])
          [''create'', ''-p'', ''zroot/freeclaw/sandboxes''])
          [''clone'', ''zroot/freeclaw/base-jail@freeclaw-base'', ''zroot/freeclaw/sandboxes/k1''])
   \<and> ensureSandboxDataset scripted ''k1''
        (initial_state [zroot_listing, Rejected refused, Rejected refused, done_ok, done_ok])
     = cloneForSandbox scripted ''k1''
        (answered (pooled [Rejected refused, Rejected refused, done_ok, done_ok])
           [''list'', ''-H'', ''-o'', ''name'', ''zroot/freeclaw/sandboxes/k1''])
   \<and> cloneForSandbox scripted ''k1''
        (initial_state [zroot_listing, Rejected refused, Rejected refused, Rejected refused,
                        done_ok, done_ok])
     = (Inr ''zroot/freeclaw/sandboxes/k1'',
        answered (answered (answered (answered (answered
          (pooled [Rejected refused, Rejected refused, Rejected refused, done_ok, done_ok])
          [''list'', ''-H'', ''-o'', ''name'', ''zroot/freeclaw/sandboxes/k1''])
          [''list'', ''-H'', ''-o'', ''name'', ''zroot/freeclaw/sandboxes''])
          [''create'', ''-p'', ''zroot/freeclaw/sandboxes''])
          [''list'', ''-H'', ''-o'', ''name'', ''zroot/freeclaw/sandboxes''])
          [''clone'', ''zroot/freeclaw/base-jail@freeclaw-base'', ''zroot/freeclaw/sandboxes/k1''])
   \<and> cloneForSandbox scripted ''k1''
        (initial_state [zroot_listing, Rejected refused, Rejected refused, Rejected refused,
                        Rejected refused])
     = (Inl \<lparr>z_error = ''Failed to create parent dataset: zroot/freeclaw/sandboxes'',
              z_code = CodeNone\<rparr>,
        answered (answered (answered (answered
          (pooled [Rejected refused, Rejected refused, Rejected refused, Rejected refused])
          [''list'', ''-H'', ''-o'', ''name'', ''zroot/freeclaw/sandboxes/k1''])
          [''list'', ''-H'', ''-o'', ''name'', ''zroot/freeclaw/sandboxes''])
          [''create'', ''-p'', ''zroot/freeclaw/sandboxes''])
          [''list'', ''-H'', ''-o'', ''name'', ''zroot/freeclaw/sandboxes''])"
proof -
  let ?ds = "''zroot/freeclaw/sandboxes/k1''"
  let ?L = "[''list'', ''-H'', ''-o'', ''name'', ?ds]"
  let ?LP = "[''list'', ''-H'', ''-o'', ''name'', ''zroot/freeclaw/sandboxes'']"
  let ?CP = "[''create'', ''-p'', ''zroot/freeclaw/sandboxes'']"
  let ?CL = "[''clone'', ''zroot/freeclaw/base-jail@freeclaw-base'', ?ds]"
  let ?a = "[done_ok, done_ok]"
  let ?A = "[Rejected refused, done_ok, done_ok]"
  let ?B = "[Rejected refused, Rejected refused, done_ok, done_ok]"
  let ?C = "[Rejected refused, Rejected refused, Rejected refused, done_ok, done_ok]"
  let ?D = "[Rejected refused, Rejected refused, Rejected refused, Rejected refused]"
  have ds: "sandbox_dataset ''zroot'' ''k1'' = ?ds" by (simp add: sandbox_dataset_def)
  have par: "parent_of ?ds = ''zroot/freeclaw/sandboxes''"
    by (simp add: parent_of_def substring0_def Let_def)
  have snap: "base_snapshot ''zroot'' = ''zroot/freeclaw/base-jail@freeclaw-base''"
    by (simp add: base_snapshot_def)
  have ok: "clone_result ?ds (Exited [] []) = Inr ?ds" by (simp add: clone_result_def)
  note ev = ds par snap scripted_exists scripted_zfs answered_world pooled_world done_ok_def
  have pa: "resolveZfsPool scripted (initial_state (zroot_listing # ?a)) = (Inr ''zroot'', pooled ?a)"
    and pA: "resolveZfsPool scripted (initial_state (zroot_listing # ?A)) = (Inr ''zroot'', pooled ?A)"
    and pB: "resolveZfsPool scripted (initial_state (zroot_listing # ?B)) = (Inr ''zroot'', pooled ?B)"
    and pC: "resolveZfsPool scripted (initial_state (zroot_listing # ?C)) = (Inr ''zroot'', pooled ?C)"
    and pD: "resolveZfsPool scripted (initial_state (zroot_listing # ?D)) = (Inr ''zroot'', pooled ?D)"
    by (rule scripted_pool)+
  have ea: "datasetExists scripted (sandbox_dataset ''zroot'' ''k1'') (pooled ?a)
              = (True, answered (pooled ?a) ?L)"
    by (simp add: ev)
  have ea2: "datasetExists scripted ?ds (answered (pooled ?a) ?L)
              = (True, answered (answered (pooled ?a) ?L) ?L)"
    by (simp add: ev)
  note ta = cloneForSandbox_idempotent [OF pa, where key = "''k1''"
      and ?s2.0 = "answered (pooled ?a) ?L" and ?s3.0 = "answered (pooled ?a) ?L"
      and ?s4.0 = "answered (pooled ?a) ?L" and ?s5.0 = "answered (pooled ?a) ?L"
      and s' = "answered (pooled ?a) ?L" and rcl = done_ok and out = "[]" and err = "[]"
      and e = refused and v = ?ds and ?t1.0 = "answered (pooled ?a) ?L"
      and ?t2.0 = "answered (answered (pooled ?a) ?L) ?L"]
  have ra: "cloneForSandbox scripted ''k1'' (initial_state (zroot_listing # ?a))
              = (Inr ?ds, answered (pooled ?a) ?L)"
    using ta ea by (simp add: ds)
  have ra2: "cloneForSandbox scripted ''k1'' (answered (pooled ?a) ?L)
              = (Inr ?ds, answered (answered (pooled ?a) ?L) ?L)"
    using ta ra ea2 by simp
  note tA = cloneForSandbox_idempotent [OF pA, where key = "''k1''"
      and ?s2.0 = "answered (pooled ?A) ?L"
      and ?s3.0 = "answered (answered (pooled ?A) ?L) ?LP"
      and ?s4.0 = "answered (pooled ?A) ?L" and ?s5.0 = "answered (pooled ?A) ?L"
      and s' = "answered (answered (answered (pooled ?A) ?L) ?LP) ?CL"
      and rcl = "Exited [] []" and out = "[]" and err = "[]"
      and e = refused and v = ?ds and ?t1.0 = "answered (pooled ?A) ?L"
      and ?t2.0 = "answered (pooled ?A) ?L"]
  have rA: "cloneForSandbox scripted ''k1'' (initial_state (zroot_listing # ?A))
              = (Inr ?ds, answered (answered (answered (pooled ?A) ?L) ?LP) ?CL)"
    using tA by (simp add: ev ok)
  note tB = cloneForSandbox_idempotent [OF pB, where key = "''k1''"
      and ?s2.0 = "answered (pooled ?B) ?L"
      and ?s3.0 = "answered (answered (pooled ?B) ?L) ?LP"
      and ?s4.0 = "answered (answered (answered (pooled ?B) ?L) ?LP) ?CP"
      and ?s5.0 = "answered (pooled ?B) ?L"
      and s' = "answered (answered (answered (answered (pooled ?B) ?L) ?LP) ?CP) ?CL"
      and rcl = "Exited [] []" and out = "[]" and err = "[]"
      and e = refused and v = ?ds and ?t1.0 = "answered (pooled ?B) ?L"
      and ?t2.0 = "answered (pooled ?B) ?L"]
  have rB: "cloneForSandbox scripted ''k1'' (initial_state (zroot_listing # ?B))
              = (Inr ?ds, answered (answered (answered (answered (pooled ?B) ?L) ?LP) ?CP) ?CL)"
    using tB by (simp add: ev ok)
  have en: "ensureSandboxDataset scripted ''k1'' (initial_state (zroot_listing # ?B))
              = cloneForSandbox scripted ''k1'' (answered (pooled ?B) ?L)"
    using tB by (simp add: ev)
  note tC = cloneForSandbox_idempotent [OF pC, where key = "''k1''"
      and ?s2.0 = "answered (pooled ?C) ?L"
      and ?s3.0 = "answered (answered (pooled ?C) ?L) ?LP"
      and ?s4.0 = "answered (answered (answered (pooled ?C) ?L) ?LP) ?CP"
      and ?s5.0 = "answered (answered (answered (answered (pooled ?C) ?L) ?LP) ?CP) ?LP"
      and s' = "answered (answered (answered (answered (answered (pooled ?C) ?L) ?LP) ?CP) ?LP) ?CL"
      and rcl = "Exited [] []" and out = "[]" and err = "[]"
      and e = refused and v = ?ds and ?t1.0 = "answered (pooled ?C) ?L"
      and ?t2.0 = "answered (pooled ?C) ?L"]
  have rC: "cloneForSandbox scripted ''k1'' (initial_state (zroot_listing # ?C))
              = (Inr ?ds, answered (answered (answered (answered (answered (pooled ?C) ?L) ?LP) ?CP) ?LP) ?CL)"
    using tC by (simp add: ev ok)
  note tD = cloneForSandbox_idempotent [OF pD, where key = "''k1''"
      and ?s2.0 = "answered (pooled ?D) ?L"
      and ?s3.0 = "answered (answered (pooled ?D) ?L) ?LP"
      and ?s4.0 = "answered (answered (answered (pooled ?D) ?L) ?LP) ?CP"
      and ?s5.0 = "answered (answered (answered (answered (pooled ?D) ?L) ?LP) ?CP) ?LP"
      and s' = "answered (pooled ?D) ?L"
      and rcl = "Exited [] []" and out = "[]" and err = "[]"
      and e = refused and v = ?ds and ?t1.0 = "answered (pooled ?D) ?L"
      and ?t2.0 = "answered (pooled ?D) ?L"]
  have rD: "cloneForSandbox scripted ''k1'' (initial_state (zroot_listing # ?D))
              = (Inl \<lparr>z_error = ''Failed to create parent dataset: zroot/freeclaw/sandboxes'',
                       z_code = CodeNone\<rparr>,
                 answered (answered (answered (answered (pooled ?D) ?L) ?LP) ?CP) ?LP)"
    using tD by (simp add: ev)
  show ?thesis
    using pa ea ra ra2 rA rB en rC rD by simp
qed

theorem destroySandboxDataset_idempotent_witness:
  "resolveZfsPool scripted (initial_state [zroot_listing, Rejected refused])
     = (Inr ''zroot'', pooled [Rejected refused])
   \<and> datasetExists scripted (sandbox_dataset ''zroot'' ''k1'') (pooled [Rejected refused])
     = (False, answered (pooled [Rejected refused])
                 [''list'', ''-H'', ''-o'', ''name'', ''zroot/freeclaw/sandboxes/k1''])
   \<and> destroySandboxDataset scripted ''k1'' (initial_state [zroot_listing, Rejected refused])
     = (Inr (), answered (pooled [Rejected refused])
                 [''list'', ''-H'', ''-o'', ''name'', ''zroot/freeclaw/sandboxes/k1''])
   \<and> datasetExists scripted (sandbox_dataset ''zroot'' ''k1'') (pooled [done_ok, done_ok, Rejected refused])
     = (True, answered (pooled [done_ok, done_ok, Rejected refused])
                 [''list'', ''-H'', ''-o'', ''name'', ''zroot/freeclaw/sandboxes/k1''])
   \<and> destroySandboxDataset scripted ''k1'' (initial_state [zroot_listing, done_ok, done_ok, Rejected refused])
     = (Inr (), answered (answered (pooled [done_ok, done_ok, Rejected refused])
                 [''list'', ''-H'', ''-o'', ''name'', ''zroot/freeclaw/sandboxes/k1''])
                 [''destroy'', ''-r'', ''zroot/freeclaw/sandboxes/k1''])
   \<and> destroySandboxDataset scripted ''k1''
        (answered (answered (pooled [done_ok, done_ok, Rejected refused])
                 [''list'', ''-H'', ''-o'', ''name'', ''zroot/freeclaw/sandboxes/k1''])
                 [''destroy'', ''-r'', ''zroot/freeclaw/sandboxes/k1''])
     = (Inr (), answered (answered (answered (pooled [done_ok, done_ok, Rejected refused])
                 [''list'', ''-H'', ''-o'', ''name'', ''zroot/freeclaw/sandboxes/k1''])
                 [''destroy'', ''-r'', ''zroot/freeclaw/sandboxes/k1''])
                 [''list'', ''-H'', ''-o'', ''name'', ''zroot/freeclaw/sandboxes/k1''])"
proof -
  let ?ds = "''zroot/freeclaw/sandboxes/k1''"
  let ?L = "[''list'', ''-H'', ''-o'', ''name'', ?ds]"
  let ?D = "[''destroy'', ''-r'', ?ds]"
  let ?a = "[Rejected refused]"
  let ?b = "[done_ok, done_ok, Rejected refused]"
  have ds: "sandbox_dataset ''zroot'' ''k1'' = ?ds" by (simp add: sandbox_dataset_def)
  have pa: "resolveZfsPool scripted (initial_state (zroot_listing # ?a)) = (Inr ''zroot'', pooled ?a)"
    and pb: "resolveZfsPool scripted (initial_state (zroot_listing # ?b)) = (Inr ''zroot'', pooled ?b)"
    by (rule scripted_pool)+
  have ea: "datasetExists scripted (sandbox_dataset ''zroot'' ''k1'') (pooled ?a)
              = (False, answered (pooled ?a) ?L)"
    by (simp add: ds scripted_exists pooled_world)
  have eb: "datasetExists scripted (sandbox_dataset ''zroot'' ''k1'') (pooled ?b)
              = (True, answered (pooled ?b) ?L)"
    by (simp add: ds scripted_exists pooled_world done_ok_def)
  have db: "zfs scripted [''destroy'', ''-r'', sandbox_dataset ''zroot'' ''k1''] (answered (pooled ?b) ?L)
              = (done_ok, answered (answered (pooled ?b) ?L) ?D)"
    by (simp add: ds scripted_zfs answered_world pooled_world)
  have eb2: "datasetExists scripted (sandbox_dataset ''zroot'' ''k1'')
               (answered (answered (pooled ?b) ?L) ?D)
              = (False, answered (answered (answered (pooled ?b) ?L) ?D) ?L)"
    by (simp add: ds scripted_exists answered_world pooled_world)
  note ta = destroySandboxDataset_idempotent [OF pa, where key = "''k1''"
      and ?s2.0 = "answered (pooled ?a) ?L" and rd = done_ok
      and ?s3.0 = "answered (pooled ?a) ?L" and ?t1.0 = "answered (pooled ?a) ?L"
      and ?t2.0 = "answered (pooled ?a) ?L"]
  note tb = destroySandboxDataset_idempotent [OF pb, where key = "''k1''"
      and ?s2.0 = "answered (pooled ?b) ?L" and rd = done_ok
      and ?s3.0 = "answered (answered (pooled ?b) ?L) ?D"
      and ?t1.0 = "answered (answered (pooled ?b) ?L) ?D"
      and ?t2.0 = "answered (answered (answered (pooled ?b) ?L) ?D) ?L"]
  have ra: "destroySandboxDataset scripted ''k1'' (initial_state (zroot_listing # ?a))
              = (Inr (), answered (pooled ?a) ?L)"
    using ta ea by simp
  have rb: "destroySandboxDataset scripted ''k1'' (initial_state (zroot_listing # ?b))
              = (Inr (), answered (answered (pooled ?b) ?L) ?D)"
    using tb eb db by (simp add: destroy_result_def done_ok_def)
  have rb2: "destroySandboxDataset scripted ''k1'' (answered (answered (pooled ?b) ?L) ?D)
              = (Inr (), answered (answered (answered (pooled ?b) ?L) ?D) ?L)"
    using tb rb eb2 by simp
  show ?thesis
    using pa ea ra eb rb rb2 by simp
qed

theorem create_race_recovered_witness:
  "resolveZfsPool scripted (initial_state [zroot_listing, Rejected refused, Rejected refused, done_ok])
     = (Inr ''zroot'', pooled [Rejected refused, Rejected refused, done_ok])
   \<and> ensureWorkspaceDataset scripted ''main''
        (initial_state [zroot_listing, Rejected refused, Rejected refused, done_ok])
     = (Inr ''zroot/freeclaw/workspaces/main'',
        answered (answered (answered (pooled [Rejected refused, Rejected refused, done_ok])
           [''list'', ''-H'', ''-o'', ''name'', ''zroot/freeclaw/workspaces/main''])
           [''create'', ''-p'', ''-o'', ''compression=lz4'', ''zroot/freeclaw/workspaces/main''])
           [''list'', ''-H'', ''-o'', ''name'', ''zroot/freeclaw/workspaces/main''])
   \<and> fst (ensureWorkspaceDataset scripted ''main''
        (initial_state [zroot_listing, Rejected refused, Rejected refused, Rejected refused]))
     = Inl \<lparr>z_error = ''cannot open: dataset does not exist'', z_code = CodeNum 1\<rparr>
   \<and> cloneForSandbox scripted ''k1''
        (initial_state [zroot_listing, Rejected refused, Rejected refused, Rejected refused,
                        done_ok, done_ok])
     = (Inr ''zroot/freeclaw/sandboxes/k1'',
        answered (answered (answered (answered (answered
          (pooled [Rejected refused, Rejected refused, Rejected refused, done_ok, done_ok])
           [''list'', ''-H'', ''-o'', ''name'', ''zroot/freeclaw/sandboxes/k1''])
           [''list'', ''-H'', ''-o'', ''name'', ''zroot/freeclaw/sandboxes''])
           [''create'', ''-p'', ''zroot/freeclaw/sandboxes''])
           [''list'', ''-H'', ''-o'', ''name'', ''zroot/freeclaw/sandboxes''])
           [''clone'', ''zroot/freeclaw/base-jail@freeclaw-base'', ''zroot/freeclaw/sandboxes/k1''])"
proof -
  let ?w1 = "[Rejected refused, Rejected refused, done_ok]"
  let ?w2 = "[Rejected refused, Rejected refused, Rejected refused]"
  let ?w3 = "[Rejected refused, Rejected refused, Rejected refused, done_ok, done_ok]"
  let ?LW = "[''list'', ''-H'', ''-o'', ''name'', ''zroot/freeclaw/workspaces/main'']"
  let ?CW = "[''create'', ''-p'', ''-o'', ''compression=lz4'', ''zroot/freeclaw/workspaces/main'']"
  let ?LS = "[''list'', ''-H'', ''-o'', ''name'', ''zroot/freeclaw/sandboxes/k1'']"
  let ?LP = "[''list'', ''-H'', ''-o'', ''name'', ''zroot/freeclaw/sandboxes'']"
  let ?CP = "[''create'', ''-p'', ''zroot/freeclaw/sandboxes'']"
  have par: "parent_of ''zroot/freeclaw/sandboxes/k1'' = ''zroot/freeclaw/sandboxes''"
    by (simp add: parent_of_def substring0_def Let_def)
  have p1: "resolveZfsPool scripted (initial_state (zroot_listing # ?w1)) = (Inr ''zroot'', pooled ?w1)"
    and p2: "resolveZfsPool scripted (initial_state (zroot_listing # ?w2)) = (Inr ''zroot'', pooled ?w2)"
    and p3: "resolveZfsPool scripted (initial_state (zroot_listing # ?w3)) = (Inr ''zroot'', pooled ?w3)"
    by (rule scripted_pool)+
  note t1 = create_race_recovered [OF p1, of "''main''" "answered (pooled ?w1) ?LW" refused
      "answered (answered (pooled ?w1) ?LW) ?CW" True
      "answered (answered (answered (pooled ?w1) ?LW) ?CW) ?LW"]
  note t2 = create_race_recovered [OF p2, of "''main''" "answered (pooled ?w2) ?LW" refused
      "answered (answered (pooled ?w2) ?LW) ?CW" False
      "answered (answered (answered (pooled ?w2) ?LW) ?CW) ?LW"]
  note t3 = create_race_recovered [OF p3, of _ _ _ _ _ _ "''k1''" "answered (pooled ?w3) ?LS"
      "answered (answered (pooled ?w3) ?LS) ?LP" refused
      "answered (answered (answered (pooled ?w3) ?LS) ?LP) ?CP" True
      "answered (answered (answered (answered (pooled ?w3) ?LS) ?LP) ?CP) ?LP"]
  show ?thesis
    using p1 t1 t2 t3
    by (simp add: scripted_exists scripted_zfs answered_world pooled_world sandbox_dataset_def
          workspace_dataset_def par done_ok_def clone_result_def base_snapshot_def
          fail_def refused_def trim_eval NL_def)
qed

theorem createBaseSnapshot_safe_witness:
  "resolveZfsPool snap_sim (initial_state (True, True)) = (Inr ''zroot'', pooled (True, True))
   \<and> snapshot_contract snap_sim (base_snapshot ''zroot'')
   \<and> fst (createBaseSnapshot snap_sim (initial_state (True, True)))
       = Inr ''zroot/freeclaw/base-jail@freeclaw-base''
   \<and> map fst (trace (snd (createBaseSnapshot snap_sim (initial_state (True, True)))))
       = [zpool_cmd [''list'', ''-H'', ''-o'', ''name''],
          zfs_cmd [''list'', ''-H'', ''-t'', ''snapshot'', ''zroot/freeclaw/base-jail@freeclaw-base''],
          zfs_cmd [''destroy'', ''zroot/freeclaw/base-jail@freeclaw-base'']]
   \<and> snapshot_listed snap_sim (world (snd (createBaseSnapshot snap_sim (initial_state (True, True)))))
        (base_snapshot ''zroot'')
   \<and> fst (createBaseSnapshot snap_sim (initial_state (True, False)))
       = Inr ''zroot/freeclaw/base-jail@freeclaw-base''
   \<and> map fst (trace (snd (createBaseSnapshot snap_sim (initial_state (True, False)))))
       = [zpool_cmd [''list'', ''-H'', ''-o'', ''name''],
          zfs_cmd [''list'', ''-H'', ''-t'', ''snapshot'', ''zroot/freeclaw/base-jail@freeclaw-base''],
          zfs_cmd [''destroy'', ''zroot/freeclaw/base-jail@freeclaw-base''],
          zfs_cmd [''snapshot'', ''zroot/freeclaw/base-jail@freeclaw-base'']]
   \<and> fst (createBaseSnapshot snap_sim (initial_state (False, False)))
       = Inr ''zroot/freeclaw/base-jail@freeclaw-base''
   \<and> map fst (trace (snd (createBaseSnapshot snap_sim (initial_state (False, False)))))
       = [zpool_cmd [''list'', ''-H'', ''-o'', ''name''],
          zfs_cmd [''list'', ''-H'', ''-t'', ''snapshot'', ''zroot/freeclaw/base-jail@freeclaw-base''],
          zfs_cmd [''snapshot'', ''zroot/freeclaw/base-jail@freeclaw-base'']]"
proof -
  let ?snap = "''zroot/freeclaw/base-jail@freeclaw-base''"
  let ?L = "[''list'', ''-H'', ''-t'', ''snapshot'', ?snap]"
  let ?D = "[''destroy'', ?snap]"
  let ?S = "[''snapshot'', ?snap]"
  have b: "base_snapshot ''zroot'' = ?snap" by (simp add: base_snapshot_def)
  have z: "\<And>as s. zfs snap_sim as s =
            (fst (snap_sim (world s) (zfs_cmd as)),
             s\<lparr>world := snd (snap_sim (world s) (zfs_cmd as)),
               trace := trace s @ [(zfs_cmd as, fst (snap_sim (world s) (zfs_cmd as)))]\<rparr>)"
    by (simp add: zfs_def run_tool_def split: prod.split)
  have k: "snapshot_contract snap_sim (base_snapshot ''zroot'')" by (rule snap_sim_contract)
  have pa: "resolveZfsPool snap_sim (initial_state (True, True)) = (Inr ''zroot'', pooled (True, True))"
    and pb: "resolveZfsPool snap_sim (initial_state (True, False)) = (Inr ''zroot'', pooled (True, False))"
    and pc: "resolveZfsPool snap_sim (initial_state (False, False)) = (Inr ''zroot'', pooled (False, False))"
    by (rule snap_sim_pool)+
  define a2 where "a2 = snd (zfs snap_sim ?L (pooled (True, True)))"
  define a3 where "a3 = snd (zfs snap_sim ?D a2)"
  define b2 where "b2 = snd (zfs snap_sim ?L (pooled (True, False)))"
  define b3 where "b3 = snd (zfs snap_sim ?D b2)"
  define b4 where "b4 = snd (zfs snap_sim ?S b3)"
  define c2 where "c2 = snd (zfs snap_sim ?L (pooled (False, False)))"
  define c4 where "c4 = snd (zfs snap_sim ?S c2)"
  have a: "zfs snap_sim ?L (pooled (True, True)) = (Exited [] [], a2)"
          "zfs snap_sim ?D a2 = (Rejected refused, a3)"
    by (simp_all add: a2_def a3_def z snap_sim_def zfs_cmd_def pooled_def done_ok_def)
  have bb: "zfs snap_sim ?L (pooled (True, False)) = (Exited [] [], b2)"
          "zfs snap_sim ?D b2 = (Exited [] [], b3)"
          "zfs snap_sim ?S b3 = (Exited [] [], b4)"
    by (simp_all add: b2_def b3_def b4_def z snap_sim_def zfs_cmd_def pooled_def done_ok_def)
  have c: "zfs snap_sim ?L (pooled (False, False)) = (Rejected refused, c2)"
          "zfs snap_sim ?S c2 = (Exited [] [], c4)"
    by (simp_all add: c2_def c4_def z snap_sim_def zfs_cmd_def pooled_def done_ok_def)
  note ta = createBaseSnapshot_safe [OF pa, of "[]" "[]" a2 refused a3 _ _ _ _
      "''zroot/freeclaw/base-jail@freeclaw-base''" a3]
  note tb = createBaseSnapshot_safe [OF pb, of "[]" "[]" b2 _ b3 "[]" "[]" "Exited [] []" b4]
  note tc = createBaseSnapshot_safe [OF pc, of _ _ c2 refused _ _ _ "Exited [] []" c4]
  have ra: "createBaseSnapshot snap_sim (initial_state (True, True)) = (Inr ?snap, a3)"
    and tra: "trace a3 = trace (pooled (True, True)) @ [(zfs_cmd ?L, Exited [] []), (zfs_cmd ?D, Rejected refused)]"
    using ta a by (simp_all add: b)
  have la: "snapshot_listed snap_sim (world a3) (base_snapshot ''zroot'')"
    using ta k ra by (simp add: b)
  have rb: "createBaseSnapshot snap_sim (initial_state (True, False)) = (Inr ?snap, b4)"
    and trb: "trace b4 = trace (pooled (True, False)) @
               [(zfs_cmd ?L, Exited [] []), (zfs_cmd ?D, Exited [] []), (zfs_cmd ?S, Exited [] [])]"
    using tb bb by (simp_all add: b snapshot_result_def)
  have rc: "createBaseSnapshot snap_sim (initial_state (False, False)) = (Inr ?snap, c4)"
    and trc: "trace c4 = trace (pooled (False, False)) @
               [(zfs_cmd ?L, Rejected refused), (zfs_cmd ?S, Exited [] [])]"
    using tc c by (simp_all add: b snapshot_result_def)
  show ?thesis
    using pa k la by (simp add: ra rb rc tra trb trc pooled_def)
qed


section \<open>Properties of the Capsicum launcher\<close>

lemma isCapsicumAvailable_fresh:
  "capsicumAvailable st = None \<Longrightarrow>
     fst (isCapsicumAvailable host st) = (\<not> kernel_lacks_capsicum host)"
  by (auto simp: isCapsicumAvailable_def kernel_lacks_capsicum_def Let_def split: option.splits)

lemma isCapsicumAvailable_cached:
  "capsicumAvailable st = Some b \<Longrightarrow> isCapsicumAvailable host st = (b, st)"
  by (simp add: isCapsicumAvailable_def)

lemma isCapsicumAvailable_keeps_helper:
  "capHelperReady (snd (isCapsicumAvailable host st)) = capHelperReady st"
  by (simp add: isCapsicumAvailable_def Let_def logWarn_def logInfo_def split: option.splits)

lemma generateCapHelper_None:
  "\<not> capHelperReady st \<Longrightarrow> helper_cannot_compile host \<Longrightarrow>
     fst (generateCapHelper host st) = None"
  by (auto simp: generateCapHelper_def helper_cannot_compile_def split: option.splits)

lemma buildCapsicumLauncher_unavailable:
  "\<not> fst (isCapsicumAvailable host st) \<Longrightarrow>
     fst (buildCapsicumLauncher host opts st)
       = \<lparr>argv = [''/bin/sh'', ''-c'', l_command opts], sandboxed = False\<rparr>"
  by (cases "isCapsicumAvailable host st") (simp add: buildCapsicumLauncher_def)

lemma buildCapsicumLauncher_no_helper:
  "fst (generateCapHelper host (snd (isCapsicumAvailable host st))) = None \<Longrightarrow>
     fst (buildCapsicumLauncher host opts st)
       = \<lparr>argv = [''/bin/sh'', ''-c'', l_command opts], sandboxed = False\<rparr>"
  by (cases "isCapsicumAvailable host st";
      cases "generateCapHelper host (snd (isCapsicumAvailable host st))")
     (simp add: buildCapsicumLauncher_def split: bool.split)

text \<open>
  Claim C9.  \<^verbatim>\<open>buildCapsicumLauncher\<close> always returns a launcher; it has no failing
  result.  Whenever \<^verbatim>\<open>isCapsicumAvailable\<close> answers no, or \<^verbatim>\<open>generateCapHelper\<close> gives
  no helper, the launcher is \<^verbatim>\<open>["/bin/sh", "-c", command]\<close> with \<^verbatim>\<open>sandboxed\<close> false.
  With empty caches this is the case when the kernel does not report Capsicum (not FreeBSD,
  \<^verbatim>\<open>sysctl\<close> fails, or its trimmed output is not \<^verbatim>\<open>1\<close>), and when the kernel reports it
  but creating the directory, writing the source, compiling or \<^verbatim>\<open>chmod\<close> fails.
\<close>

theorem buildCapsicumLauncher_fallback:
  "(\<not> fst (isCapsicumAvailable host st)
      \<or> fst (generateCapHelper host (snd (isCapsicumAvailable host st))) = None \<longrightarrow>
      fst (buildCapsicumLauncher host opts st)
        = \<lparr>argv = [''/bin/sh'', ''-c'', l_command opts], sandboxed = False\<rparr>)
   \<and> (capsicumAvailable st = None \<longrightarrow> kernel_lacks_capsicum host \<longrightarrow>
      fst (buildCapsicumLauncher host opts st)
        = \<lparr>argv = [''/bin/sh'', ''-c'', l_command opts], sandboxed = False\<rparr>)
   \<and> (\<not> capHelperReady st \<longrightarrow> helper_cannot_compile host \<longrightarrow>
      fst (buildCapsicumLauncher host opts st)
        = \<lparr>argv = [''/bin/sh'', ''-c'', l_command opts], sandboxed = False\<rparr>)"
proof (intro conjI impI)
  assume "\<not> fst (isCapsicumAvailable host st)
      \<or> fst (generateCapHelper host (snd (isCapsicumAvailable host st))) = None"
  then show "fst (buildCapsicumLauncher host opts st)
        = \<lparr>argv = [''/bin/sh'', ''-c'', l_command opts], sandboxed = False\<rparr>"
    using buildCapsicumLauncher_unavailable buildCapsicumLauncher_no_helper by blast
next
  assume "capsicumAvailable st = None" and "kernel_lacks_capsicum host"
  then have "\<not> fst (isCapsicumAvailable host st)"
    by (simp add: isCapsicumAvailable_fresh)
  then show "fst (buildCapsicumLauncher host opts st)
        = \<lparr>argv = [''/bin/sh'', ''-c'', l_command opts], sandboxed = False\<rparr>"
    by (rule buildCapsicumLauncher_unavailable)
next
  assume "\<not> capHelperReady st" and h: "helper_cannot_compile host"
  then have "\<not> capHelperReady (snd (isCapsicumAvailable host st))"
    by (simp add: isCapsicumAvailable_keeps_helper)
  then have "fst (generateCapHelper host (snd (isCapsicumAvailable host st))) = None"
    using h by (rule generateCapHelper_None)
  then show "fst (buildCapsicumLauncher host opts st)
        = \<lparr>argv = [''/bin/sh'', ''-c'', l_command opts], sandboxed = False\<rparr>"
    by (rule buildCapsicumLauncher_no_helper)
qed

theorem buildCapsicumLauncher_fallback_witness:
  "capsicumAvailable fresh_state = None
   \<and> kernel_lacks_capsicum (demo_host\<lparr>sysctl_capabilities := Some (''0'' @ NL)\<rparr>)
   \<and> \<not> fst (isCapsicumAvailable (demo_host\<lparr>sysctl_capabilities := Some (''0'' @ NL)\<rparr>) fresh_state)
   \<and> fst (buildCapsicumLauncher (demo_host\<lparr>sysctl_capabilities := Some (''0'' @ NL)\<rparr>)
            \<lparr>l_command = ''ls -la'', l_workdir = ''/w'', l_policy = None\<rparr> fresh_state)
       = \<lparr>argv = [''/bin/sh'', ''-c'', ''ls -la''], sandboxed = False\<rparr>
   \<and> \<not> capHelperReady fresh_state
   \<and> helper_cannot_compile (demo_host\<lparr>cc_error := Some ''Error: spawn cc ENOENT''\<rparr>)
   \<and> fst (isCapsicumAvailable (demo_host\<lparr>cc_error := Some ''Error: spawn cc ENOENT''\<rparr>) fresh_state)
   \<and> fst (buildCapsicumLauncher (demo_host\<lparr>cc_error := Some ''Error: spawn cc ENOENT''\<rparr>)
            \<lparr>l_command = ''ls -la'', l_workdir = ''/w'', l_policy = None\<rparr> fresh_state)
       = \<lparr>argv = [''/bin/sh'', ''-c'', ''ls -la''], sandboxed = False\<rparr>
   \<and> buildCapsicumLauncher demo_host
            \<lparr>l_command = ''ls -la'', l_workdir = ''/w'', l_policy = None\<rparr> fresh_state
       = (\<lparr>argv = [''/root/.freeclaw/bin/freeclaw-cap-exec'', ''/w'', ''0'', ''/bin/sh'', ''-c'',
                   ''ls -la''], sandboxed = True\<rparr>,
          \<lparr>capsicumAvailable = Some True, capHelperReady = True,
            logged = [(LogInfo, ''capsicum: Capsicum capability mode detected and available.''),
                      (LogInfo, ''capsicum: compiled Capsicum helper at /root/.freeclaw/bin/freeclaw-cap-exec'')]\<rparr>)"
proof -
  have k: "kernel_lacks_capsicum (demo_host\<lparr>sysctl_capabilities := Some (''0'' @ NL)\<rparr>)"
    by (simp add: kernel_lacks_capsicum_def demo_host_def trim_eval NL_def)
  have c: "helper_cannot_compile (demo_host\<lparr>cc_error := Some ''Error: spawn cc ENOENT''\<rparr>)"
    by (simp add: helper_cannot_compile_def)
  have f: "capsicumAvailable fresh_state = None" "\<not> capHelperReady fresh_state"
    by (simp_all add: fresh_state_def)
  have a: "fst (isCapsicumAvailable (demo_host\<lparr>cc_error := Some ''Error: spawn cc ENOENT''\<rparr>) fresh_state)"
    by (simp add: isCapsicumAvailable_def fresh_state_def demo_host_def trim_eval NL_def
          Let_def)
  have n: "\<not> fst (isCapsicumAvailable (demo_host\<lparr>sysctl_capabilities := Some (''0'' @ NL)\<rparr>) fresh_state)"
    using k by (simp add: isCapsicumAvailable_fresh f)
  have g: "buildCapsicumLauncher demo_host
            \<lparr>l_command = ''ls -la'', l_workdir = ''/w'', l_policy = None\<rparr> fresh_state
       = (\<lparr>argv = [''/root/.freeclaw/bin/freeclaw-cap-exec'', ''/w'', ''0'', ''/bin/sh'', ''-c'',
                   ''ls -la''], sandboxed = True\<rparr>,
          \<lparr>capsicumAvailable = Some True, capHelperReady = True,
            logged = [(LogInfo, ''capsicum: Capsicum capability mode detected and available.''),
                      (LogInfo, ''capsicum: compiled Capsicum helper at /root/.freeclaw/bin/freeclaw-cap-exec'')]\<rparr>)"
    by (simp add: buildCapsicumLauncher_def isCapsicumAvailable_def generateCapHelper_def
          fresh_state_def demo_host_def trim_eval NL_def Let_def logInfo_def)
  show ?thesis
    using k c f a n g
      buildCapsicumLauncher_fallback [of "demo_host\<lparr>sysctl_capabilities := Some (''0'' @ NL)\<rparr>"
        fresh_state "\<lparr>l_command = ''ls -la'', l_workdir = ''/w'', l_policy = None\<rparr>"]
      buildCapsicumLauncher_fallback [of "demo_host\<lparr>cc_error := Some ''Error: spawn cc ENOENT''\<rparr>"
        fresh_state "\<lparr>l_command = ''ls -la'', l_workdir = ''/w'', l_policy = None\<rparr>"]
    by simp
qed

text \<open>
  \<^verbatim>\<open>capsicumExec\<close> has no option to tolerate failure and no failing result: whatever
  code the child exits with is returned as data with the captured output, and a child
  that cannot be spawned gives the code 126.
\<close>

lemma capsicumExec_closed:
  assumes "spawn w \<lparr>sp_argv = argv (fst (buildCapsicumLauncher host
                 \<lparr>l_command = command, l_workdir = x_workdir opts, l_policy = x_policy opts\<rparr> st)),
               sp_cwd = x_workdir opts, sp_env = child_env, sp_detached = IS_FREEBSD host\<rparr>
           = (ChildClosed out err exit_code, w')"
    and "child_env = (case x_policy opts of
                  Some policy \<Rightarrow>
                    (case tmpDir policy of
                       Some (c # cs) \<Rightarrow>
                         (process_env ++ map_of (case x_env opts of Some kvs \<Rightarrow> kvs | None \<Rightarrow> []))
                           (''TMPDIR'' \<mapsto> c # cs)
                     | _ \<Rightarrow> process_env ++ map_of (case x_env opts of Some kvs \<Rightarrow> kvs | None \<Rightarrow> []))
                | None \<Rightarrow> process_env ++ map_of (case x_env opts of Some kvs \<Rightarrow> kvs | None \<Rightarrow> []))"
  shows "fst (capsicumExec host process_env spawn command opts st w)
           = \<lparr>r_stdout = out, r_stderr = err, exitCode = exit_code,
              r_sandboxed = sandboxed (fst (buildCapsicumLauncher host
                 \<lparr>l_command = command, l_workdir = x_workdir opts, l_policy = x_policy opts\<rparr> st))\<rparr>"
  using assms
  by (cases "buildCapsicumLauncher host
               \<lparr>l_command = command, l_workdir = x_workdir opts, l_policy = x_policy opts\<rparr> st")
     (simp add: capsicumExec_def Let_def)

lemma capsicumExec_exit_code:
  "exitCode (fst (capsicumExec host process_env spawn command opts st w)) = Some 126
   \<or> (\<exists>out err w' req.
         spawn w req = (ChildClosed out err
                          (exitCode (fst (capsicumExec host process_env spawn command opts st w))), w'))"
  unfolding capsicumExec_def Let_def
  by (auto split: prod.splits child_outcome.splits)

section \<open>Properties of \<^verbatim>\<open>jailExec\<close>\<close>

text \<open>
  Claim C4.  For every jail, command, options and tool, \<^verbatim>\<open>jailExec\<close> runs one
  \<^verbatim>\<open>jexec\<close> command.  When it exits normally the result is the captured standard output
  and standard error with exit code 0.  When it fails and the caller set
  \<^verbatim>\<open>allowFailure\<close>, the result is data: the standard output and standard error the
  error carries and its exit code.  When it fails and the caller did not, the call throws
  an error and returns no result.
\<close>

theorem jailExec_result:
  "(sys w (jailExec_command jailName command opts) = (Exited out err, w') \<longrightarrow>
      jailExec sys jailName command opts w = (Inr \<lparr>stdout = out, stderr = err, code = 0\<rparr>, w'))
   \<and> (sys w (jailExec_command jailName command opts) = (Rejected e, w') \<longrightarrow>
      tolerates_failure opts \<longrightarrow>
      jailExec sys jailName command opts w
        = (Inr \<lparr>stdout = (case e_stdout e of Some x \<Rightarrow> x | None \<Rightarrow> []),
                stderr = (case e_stderr e of Some x \<Rightarrow> x | None \<Rightarrow> []),
                code = exit_code_of e\<rparr>, w'))
   \<and> (sys w (jailExec_command jailName command opts) = (Rejected e, w') \<longrightarrow>
      \<not> tolerates_failure opts \<longrightarrow>
      (\<exists>msg. jailExec sys jailName command opts w = (Inl (Error msg), w')))"
  by (cases "e_code e")
     (simp_all add: jailExec_def tolerates_failure_def exit_code_of_def Let_def)

theorem jailExec_result_witness:
  "jailExec_command ''fc-abc'' [''ls'', ''it's''] (Some demo_opts)
     = \<lparr>c_bin = ''jexec'',
        c_args = [''-U'', ''1001'', ''fc-abc'', ''/usr/bin/env'', ''LANG=C'', ''sh'', ''-c'',
                  ''cd '' @ [CHR 0x27] @ ''/work space'' @ [CHR 0x27] @ '' && ls ''
                  @ [CHR 0x27] @ ''it'' @ [CHR 0x27, CHR 0x5C, CHR 0x27, CHR 0x27] @ ''s'' @ [CHR 0x27]],
        c_timeout = 300000\<rparr>
   \<and> scripted [Exited ''a.txt'' []] (jailExec_command ''fc-abc'' [''ls''] None)
       = (Exited ''a.txt'' [], [])
   \<and> jailExec scripted ''fc-abc'' [''ls''] None [Exited ''a.txt'' []]
       = (Inr \<lparr>stdout = ''a.txt'', stderr = [], code = 0\<rparr>, [])
   \<and> scripted [Rejected exit_2] (jailExec_command ''fc-abc'' [''ls'', ''nope''] (Some demo_opts))
       = (Rejected exit_2, [])
   \<and> tolerates_failure (Some demo_opts)
   \<and> jailExec scripted ''fc-abc'' [''ls'', ''nope''] (Some demo_opts) [Rejected exit_2]
       = (Inr \<lparr>stdout = ''partial'', stderr = ''ls: nope: No such file or directory'' @ NL,
               code = 2\<rparr>, [])
   \<and> \<not> tolerates_failure None
   \<and> jailExec scripted ''fc-abc'' [''ls'', ''nope''] None [Rejected exit_2]
       = (Inl (Error ''ls: nope: No such file or directory''), [])
   \<and> jailExec scripted ''fc-abc'' [''ls'', ''nope''] None [no_answer]
       = (Inl (Error ''jexec fc-abc ls nope failed (exit 1)''), [])"
proof -
  have a: "jailExec_command ''fc-abc'' [''ls'', ''it's''] (Some demo_opts)
     = \<lparr>c_bin = ''jexec'',
        c_args = [''-U'', ''1001'', ''fc-abc'', ''/usr/bin/env'', ''LANG=C'', ''sh'', ''-c'',
                  ''cd '' @ [CHR 0x27] @ ''/work space'' @ [CHR 0x27] @ '' && ls ''
                  @ [CHR 0x27] @ ''it'' @ [CHR 0x27, CHR 0x5C, CHR 0x27, CHR 0x27] @ ''s'' @ [CHR 0x27]],
        c_timeout = 300000\<rparr>"
    by (simp add: jailExec_command_def jailExec_args_def demo_opts_def Let_def push_def push2_def
          shellEscape_def safe_char_def show_int_def)
  have t: "tolerates_failure (Some demo_opts)" "\<not> tolerates_failure None"
    by (simp_all add: tolerates_failure_def demo_opts_def)
  have m: "jailExec scripted ''fc-abc'' [''ls'', ''nope''] None [Rejected exit_2]
             = (Inl (Error ''ls: nope: No such file or directory''), [])"
          "jailExec scripted ''fc-abc'' [''ls'', ''nope''] None [no_answer]
             = (Inl (Error ''jexec fc-abc ls nope failed (exit 1)''), [])"
    by (simp_all add: jailExec_def exit_2_def no_answer_def Let_def trim_eval NL_def
          show_int_def)
  show ?thesis
    using a t m
      jailExec_result [of scripted "[Exited ''a.txt'' []]" "''fc-abc''" "[''ls'']" None
        "''a.txt''" "[]" "[]"]
      jailExec_result [of scripted "[Rejected exit_2]" "''fc-abc''" "[''ls'', ''nope'']"
        "Some demo_opts" _ _ "[]" exit_2]
    by (simp add: exit_code_of_def exit_2_def)
qed

section \<open>The ZFS helpers of the jail sandbox\<close>

text \<open>
  The jail sandbox has its own clone store beside \<^verbatim>\<open>zfs.ts\<close>.  Its \<^verbatim>\<open>run\<close> with
  \<^verbatim>\<open>allowFailure\<close> never throws; its existence query holds when \<^verbatim>\<open>zfs list\<close> exits
  with 0 and prints the dataset's name.
\<close>

lemma run_tolerant:
  "\<exists>r. run sys bin as True w = (Inr r, snd (sys w (sandbox_cmd bin as)))"
  by (cases "sys w (sandbox_cmd bin as)"; cases "fst (sys w (sandbox_cmd bin as))")
     (simp_all add: run_def sandbox_cmd_def Let_def)

lemma run_strict_rejected:
  "sys w (sandbox_cmd bin as) = (Rejected e, w') \<Longrightarrow> \<exists>msg. run sys bin as False w = (Inl (Error msg), w')"
  by (simp add: run_def sandbox_cmd_def Let_def)

lemma zfsDatasetExists_total:
  "\<exists>b. zfsDatasetExists sys dataset w
         = (Inr b, snd (sys w (sandbox_cmd ''zfs'' [''list'', ''-H'', ''-o'', ''name'', dataset])))"
  using run_tolerant [of sys "''zfs''" "[''list'', ''-H'', ''-o'', ''name'', dataset]" w]
  by (auto simp: zfsDatasetExists_def)

text \<open>
  \<^verbatim>\<open>zfsClone\<close> returns the mount point of a dataset that exists after the two queries
  \<^verbatim>\<open>zfs list\<close> and \<^verbatim>\<open>zfs get mountpoint\<close> alone.
\<close>

lemma zfsClone_present:
  "zfsDatasetExists sys (cloneDataset cfg jailName) w = (Inr True, w1) \<Longrightarrow>
     zfsClone sys cfg jailName w = cloneMountpoint sys (cloneDataset cfg jailName) w1"
  by (simp add: zfsClone_def Let_def)

text \<open>
  \<^verbatim>\<open>zfsClone\<close> creates an absent clone parent with \<^verbatim>\<open>zfs create -p\<close> and does not
  query it again: when that command fails, the call throws its error, whatever a second
  query would find.
\<close>

lemma zfsClone_create_fails:
  "zfsDatasetExists sys (cloneDataset cfg jailName) w = (Inr False, w1) \<Longrightarrow>
   zfsDatasetExists sys (cloneParent cfg) w1 = (Inr False, w2) \<Longrightarrow>
   sys w2 (sandbox_cmd ''zfs'' [''create'', ''-p'', cloneParent cfg]) = (Rejected e, w3) \<Longrightarrow>
     \<exists>msg. zfsClone sys cfg jailName w = (Inl (Error msg), w3)"
  using run_strict_rejected [of sys w2 "''zfs''" "[''create'', ''-p'', cloneParent cfg]" e w3]
  by (auto simp: zfsClone_def Let_def)

text \<open>
  \<^verbatim>\<open>zfsDestroyClone\<close> succeeds without a destroy command when the clone is absent, and
  succeeds whatever \<^verbatim>\<open>zfs destroy -r\<close> answers when it is present.
\<close>

lemma zfsDestroyClone_absent:
  "zfsDatasetExists sys (cloneDataset cfg jailName) w = (Inr False, w1) \<Longrightarrow>
     zfsDestroyClone sys cfg jailName w = (Inr (), w1)"
  by (simp add: zfsDestroyClone_def Let_def)

lemma zfsDestroyClone_present:
  "zfsDatasetExists sys (cloneDataset cfg jailName) w = (Inr True, w1) \<Longrightarrow>
     zfsDestroyClone sys cfg jailName w
       = (Inr (), snd (sys w1 (sandbox_cmd ''zfs'' [''destroy'', ''-r'', cloneDataset cfg jailName])))"
  using run_tolerant [of sys "''zfs''" "[''destroy'', ''-r'', cloneDataset cfg jailName]" w1]
  by (auto simp: zfsDestroyClone_def Let_def)
end
